theory Spec2Isabelle
  imports Complex_Main
begin

section \<open>Python values, exceptions and the library functions taken as given\<close>

text \<open>
  The code handles untyped JSON: what \<^verbatim>\<open>json.loads\<close> returns for a line of a tool
  server or for the reply of the language model. A JSON object is a Python dict, which keeps
  insertion order: it is an association list here, looked up at the first entry of a key.
  A JSON number with a fraction is a Python float (\<open>JFloat\<close>; NaN and the infinities
  are not represented). Strings are byte strings: a character beyond ASCII is its UTF-8 bytes.
\<close>

datatype json =
    JNull
  | JBool bool
  | JInt int
  | JFloat rat
  | JStr string
  | JArr "json list"
  | JObj "(string \<times> json) list"

text \<open>
  Exceptions are values. Only subclasses of \<^verbatim>\<open>Exception\<close> are modelled, which is what
  every \<^verbatim>\<open>except Exception\<close> of the source catches. \<open>ExternalError\<close> stands for
  anything a library outside the repository raises (botocore, the operating system), with
  its text.
\<close>

datatype exn =
    TimeoutError
  | JSONDecodeError string
  | KeyError json
  | TypeError string
  | AttributeError string
  | IndexError string
  | UnboundLocalError string
  | RuntimeError string
  | Exception string
  | ExternalError string

text \<open>
  The functions of the Python runtime that the code calls and that are not re-implemented:
  \<^verbatim>\<open>bytes.decode\<close>, \<^verbatim>\<open>json.loads\<close> and \<^verbatim>\<open>repr\<close>. Every theorem holds for any
  choice of them.
\<close>

record runtime =
  decode :: "string \<Rightarrow> exn + string"
  loads :: "string \<Rightarrow> exn + json"
  repr :: "json \<Rightarrow> string"

text \<open>\<^verbatim>\<open>str(x)\<close>: a string is itself, anything else prints as its \<^verbatim>\<open>repr\<close>.\<close>

fun py_str :: "runtime \<Rightarrow> json \<Rightarrow> string" where
  "py_str rt (JStr s) = s"
| "py_str rt v = repr rt v"

text \<open>\<^verbatim>\<open>str(e)\<close> of an exception; a \<^verbatim>\<open>KeyError\<close> prints the \<^verbatim>\<open>repr\<close> of its key.\<close>

fun str_exn :: "runtime \<Rightarrow> exn \<Rightarrow> string" where
  "str_exn rt TimeoutError = []"
| "str_exn rt (JSONDecodeError m) = m"
| "str_exn rt (KeyError k) = repr rt k"
| "str_exn rt (TypeError m) = m"
| "str_exn rt (AttributeError m) = m"
| "str_exn rt (IndexError m) = m"
| "str_exn rt (UnboundLocalError m) = m"
| "str_exn rt (RuntimeError m) = m"
| "str_exn rt (Exception m) = m"
| "str_exn rt (ExternalError m) = m"

definition bind_exn :: "exn + 'a \<Rightarrow> ('a \<Rightarrow> exn + 'b) \<Rightarrow> exn + 'b" where
  "bind_exn m f = (case m of Inl e \<Rightarrow> Inl e | Inr x \<Rightarrow> f x)"

subsection \<open>Strings\<close>

fun starts_with :: "string \<Rightarrow> string \<Rightarrow> bool" where
  "starts_with [] s = True"
| "starts_with (p # ps) [] = False"
| "starts_with (p # ps) (c # cs) = (p = c \<and> starts_with ps cs)"

text \<open>\<^verbatim>\<open>needle in hay\<close> on two strings.\<close>

fun str_contains :: "string \<Rightarrow> string \<Rightarrow> bool" where
  "str_contains needle [] = (needle = [])"
| "str_contains needle (c # cs) = (starts_with needle (c # cs) \<or> str_contains needle cs)"

text \<open>\<^verbatim>\<open>str.lower\<close> on the ASCII letters; other bytes stay.\<close>

definition lower_char :: "char \<Rightarrow> char" where
  "lower_char c =
     (case map_of (zip ''ABCDEFGHIJKLMNOPQRSTUVWXYZ'' ''abcdefghijklmnopqrstuvwxyz'') c of
        Some d \<Rightarrow> d
      | None \<Rightarrow> c)"

definition lower :: "string \<Rightarrow> string" where
  "lower s = map lower_char s"

text \<open>\<^verbatim>\<open>str.strip\<close>: the ASCII white space of Python.\<close>

definition is_space :: "char \<Rightarrow> bool" where
  "is_space c = (c \<in> set [CHR 0x09, CHR 0x0A, CHR 0x0B, CHR 0x0C, CHR 0x0D,
                            CHR 0x1C, CHR 0x1D, CHR 0x1E, CHR 0x1F, CHR 0x20])"

definition strip :: "string \<Rightarrow> string" where
  "strip s = rev (dropWhile is_space (rev (dropWhile is_space s)))"

subsection \<open>Dictionaries\<close>

definition dict_keys :: "(string \<times> 'v) list \<Rightarrow> string list" where
  "dict_keys d = map fst d"

definition dict_has :: "(string \<times> 'v) list \<Rightarrow> string \<Rightarrow> bool" where
  "dict_has d k = (k \<in> set (dict_keys d))"

text \<open>\<^verbatim>\<open>d[k] = v\<close>: an existing key keeps its place, a new key goes last.\<close>

fun dict_set :: "(string \<times> 'v) list \<Rightarrow> string \<Rightarrow> 'v \<Rightarrow> (string \<times> 'v) list" where
  "dict_set [] k v = [(k, v)]"
| "dict_set ((k', v') # d) k v = (if k' = k then (k, v) # d else (k', v') # dict_set d k v)"

text \<open>\<^verbatim>\<open>d.pop(k)\<close>, the dictionary that is left.\<close>

definition dict_pop :: "(string \<times> 'v) list \<Rightarrow> string \<Rightarrow> (string \<times> 'v) list" where
  "dict_pop d k = filter (\<lambda>kv. fst kv \<noteq> k) d"

subsection \<open>The dynamic operations of Python on a JSON value\<close>

fun type_name :: "json \<Rightarrow> string" where
  "type_name JNull = ''NoneType''"
| "type_name (JBool b) = ''bool''"
| "type_name (JInt i) = ''int''"
| "type_name (JFloat r) = ''float''"
| "type_name (JStr s) = ''str''"
| "type_name (JArr xs) = ''list''"
| "type_name (JObj d) = ''dict''"

text \<open>Truth value of a JSON value in an \<^verbatim>\<open>if\<close>.\<close>

fun truthy :: "json \<Rightarrow> bool" where
  "truthy JNull = False"
| "truthy (JBool b) = b"
| "truthy (JInt i) = (i \<noteq> 0)"
| "truthy (JFloat r) = (r \<noteq> 0)"
| "truthy (JStr s) = (s \<noteq> [])"
| "truthy (JArr xs) = (xs \<noteq> [])"
| "truthy (JObj d) = (d \<noteq> [])"

text \<open>
  \<^verbatim>\<open>"k" in v\<close> with a string on the left: a key of a dict, an element of a list, a
  substring of a string, and a \<^verbatim>\<open>TypeError\<close> on anything else.
\<close>

fun str_in :: "string \<Rightarrow> json \<Rightarrow> exn + bool" where
  "str_in k (JObj d) = Inr (dict_has d k)"
| "str_in k (JArr xs) = Inr (JStr k \<in> set xs)"
| "str_in k (JStr s) = Inr (str_contains k s)"
| "str_in k v = Inl (TypeError (''argument of type '' @ [CHR 0x27] @ type_name v @ [CHR 0x27]
                                 @ '' is not iterable''))"

text \<open>\<^verbatim>\<open>v["k"]\<close> with a string key.\<close>

fun getitem :: "json \<Rightarrow> string \<Rightarrow> exn + json" where
  "getitem (JObj d) k = (case map_of d k of Some v \<Rightarrow> Inr v | None \<Rightarrow> Inl (KeyError (JStr k)))"
| "getitem (JArr xs) k = Inl (TypeError ''list indices must be integers or slices, not str'')"
| "getitem (JStr s) k = Inl (TypeError (''string indices must be integers, not 'str'' @ [CHR 0x27]))"
| "getitem v k = Inl (TypeError ([CHR 0x27] @ type_name v @ [CHR 0x27]
                                  @ '' object is not subscriptable''))"

text \<open>\<^verbatim>\<open>v[0]\<close>.\<close>

fun getitem0 :: "json \<Rightarrow> exn + json" where
  "getitem0 (JArr []) = Inl (IndexError ''list index out of range'')"
| "getitem0 (JArr (x # xs)) = Inr x"
| "getitem0 (JStr []) = Inl (IndexError ''string index out of range'')"
| "getitem0 (JStr (c # cs)) = Inr (JStr [c])"
| "getitem0 (JObj d) = Inl (KeyError (JInt 0))"
| "getitem0 v = Inl (TypeError ([CHR 0x27] @ type_name v @ [CHR 0x27]
                                 @ '' object is not subscriptable''))"

definition no_attribute :: "json \<Rightarrow> string \<Rightarrow> exn" where
  "no_attribute v a = AttributeError ([CHR 0x27] @ type_name v @ [CHR 0x27]
                                       @ '' object has no attribute '' @ [CHR 0x27] @ a @ [CHR 0x27])"

text \<open>\<^verbatim>\<open>v.get("k", default)\<close>: only a dict has the method.\<close>

fun py_get :: "json \<Rightarrow> string \<Rightarrow> json \<Rightarrow> exn + json" where
  "py_get (JObj d) k dflt = (case map_of d k of Some v \<Rightarrow> Inr v | None \<Rightarrow> Inr dflt)"
| "py_get v k dflt = Inl (no_attribute v ''get'')"

text \<open>\<^verbatim>\<open>v.lower()\<close>: only a string has the method.\<close>

fun py_lower :: "json \<Rightarrow> exn + string" where
  "py_lower (JStr s) = Inr (lower s)"
| "py_lower v = Inl (no_attribute v ''lower'')"

text \<open>Whether a value can be a dictionary key or be searched for in one.\<close>

fun hashable :: "json \<Rightarrow> bool" where
  "hashable (JArr xs) = False"
| "hashable (JObj d) = False"
| "hashable v = True"

definition unhashable :: "json \<Rightarrow> exn" where
  "unhashable v = TypeError (''unhashable type: '' @ [CHR 0x27] @ type_name v @ [CHR 0x27])"

text \<open>
  What a \<^verbatim>\<open>for\<close> loop runs over: the elements of a list, the characters of a string, the
  keys of a dict; anything else is not iterable.
\<close>

fun py_iter :: "json \<Rightarrow> exn + json list" where
  "py_iter (JArr xs) = Inr xs"
| "py_iter (JStr s) = Inr (map (\<lambda>c. JStr [c]) s)"
| "py_iter (JObj d) = Inr (map JStr (dict_keys d))"
| "py_iter v = Inl (TypeError ([CHR 0x27] @ type_name v @ [CHR 0x27] @ '' object is not iterable''))"

text \<open>\<^verbatim>\<open>len(v)\<close>, for the exception it may raise (the length itself is only logged).\<close>

fun py_len :: "json \<Rightarrow> exn + nat" where
  "py_len (JArr xs) = Inr (length xs)"
| "py_len (JStr s) = Inr (length s)"
| "py_len (JObj d) = Inr (length d)"
| "py_len v = Inl (TypeError (''object of type '' @ [CHR 0x27] @ type_name v @ [CHR 0x27]
                               @ '' has no len()''))"

section \<open>Instance attribution (functions/ec2.py of the chatbot without tool servers)\<close>

text \<open>
  The CloudTrail client is an input: \<open>lookup_events\<close> maps the lookup attributes of a
  request to the events of the response, or to the exception that boto3 raises. An event
  has a user name (the key may be absent), a time and the names of its resources.
\<close>

record ct_event =
  Username :: "string option"
  EventTime :: json
  Resources :: "string list"

type_synonym cloudtrail = "(string \<times> string) list \<Rightarrow> exn + ct_event list"

text \<open>The \<^verbatim>\<open>LookupAttributes\<close> each function sends (lines 111-120 and 154-163).\<close>

definition launcher_lookup_attributes :: "string \<Rightarrow> (string \<times> string) list" where
  "launcher_lookup_attributes instance_id =
     [(''ResourceName'', instance_id), (''EventName'', ''StartInstances'')]"


text \<open>
  The inner loop over the resources of one event: \<open>username\<close> starts as \<^verbatim>\<open>None\<close> and is
  set at every resource named as the instance; reading a missing \<^verbatim>\<open>Username\<close> raises.
\<close>

fun scan_resources :: "string \<Rightarrow> ct_event \<Rightarrow> string list \<Rightarrow> string option \<Rightarrow> exn + string option" where
  "scan_resources instance_id ev [] username = Inr username"
| "scan_resources instance_id ev (r # rs) username =
     (if r = instance_id
      then (case Username ev of
              None \<Rightarrow> Inl (KeyError (JStr ''Username''))
            | Some u \<Rightarrow> scan_resources instance_id ev rs (Some u))
      else scan_resources instance_id ev rs username)"

text \<open>
  The loop over the events. The state after the loop is \<open>(username, result)\<close>, each
  \<^verbatim>\<open>None\<close> while the local variable is unbound (\<open>username\<close>) or bound to \<^verbatim>\<open>None\<close>;
  \<open>bound\<close> tells the two apart for \<open>username\<close>.
\<close>

fun scan_events :: "string \<Rightarrow> string \<Rightarrow> ct_event list \<Rightarrow> bool \<times> string option
                      \<Rightarrow> exn + (bool \<times> string option) \<times> json option" where
  "scan_events by_key instance_id [] st = Inr (st, None)"
| "scan_events by_key instance_id (ev # evs) st =
     (case scan_resources instance_id ev (Resources ev) None of
        Inl e \<Rightarrow> Inl e
      | Inr username \<Rightarrow>
          (if username \<noteq> None \<and> username \<noteq> Some []
           then Inr ((True, username),
                     Some (JObj [(''InstanceId'', JStr instance_id),
                                 (by_key, JStr (the username)),
                                 (''Event_Time'', EventTime ev)]))
           else scan_events by_key instance_id evs (True, username)))"

definition unbound_local :: "string \<Rightarrow> exn" where
  "unbound_local v = UnboundLocalError (''cannot access local variable '' @ [CHR 0x27] @ v
                        @ [CHR 0x27] @ '' where it is not associated with a value'')"

text \<open>What follows the loop, shared by the two functions up to the key and the text.\<close>

definition after_events :: "string \<Rightarrow> string \<Rightarrow> string \<Rightarrow> (bool \<times> string option) \<times> json option
                              \<Rightarrow> exn + json" where
  "after_events by_key none_text instance_id r =
     (case r of ((bound, username), result) \<Rightarrow>
        if \<not> bound then Inl (unbound_local ''username'')
        else if username = None
        then Inr (JObj [(''InstanceId'', JStr instance_id), (by_key, JStr none_text)])
        else (case result of
                None \<Rightarrow> Inl (unbound_local ''result'')
              | Some res \<Rightarrow> Inr res))"

definition attribution :: "runtime \<Rightarrow> cloudtrail \<Rightarrow> (string \<times> string) list \<Rightarrow> string \<Rightarrow> string
                             \<Rightarrow> string \<Rightarrow> json" where
  "attribution rt lookup_events attrs by_key none_text instance_id =
     (case bind_exn (lookup_events attrs)
             (\<lambda>events. bind_exn (scan_events by_key instance_id events (False, None))
                (after_events by_key none_text instance_id)) of
        Inl e \<Rightarrow> JStr (str_exn rt e)
      | Inr res \<Rightarrow> res)"

definition get_ec2_instance_launcher :: "runtime \<Rightarrow> cloudtrail \<Rightarrow> string \<Rightarrow> json" where
  "get_ec2_instance_launcher rt lookup_events instance_id =
     attribution rt lookup_events (launcher_lookup_attributes instance_id)
       ''Launched_By'' ''No launch events found for instance'' instance_id"


section \<open>The isolated client of the tool servers (core/isolated_mcp_client.py)\<close>

subsection \<open>Processes and client state\<close>

text \<open>
  A tool server is a subprocess. What it will print is an input: \<open>stdout\<close> is the list of
  what each coming \<^verbatim>\<open>readline\<close> under \<^verbatim>\<open>wait_for\<close> meets, in order: nothing before the
  deadline (\<open>RTimeout\<close>), bytes (\<open>RLine\<close>, empty at end of stream), or an exception of
  the stream (\<open>RRaise\<close>, as for a line over the buffer limit). An exhausted list is a server
  that stays silent. \<open>stdin_lines\<close> are the messages written so far, as JSON values (the
  source writes \<^verbatim>\<open>json.dumps\<close> of each and a newline); \<open>stdin_broken\<close> makes
  \<^verbatim>\<open>write\<close> and \<^verbatim>\<open>drain\<close> raise.
\<close>

datatype read = RTimeout | RLine string | RRaise exn

record process =
  stdin_broken :: bool
  stdin_lines :: "json list"
  stdout :: "read list"

record MCPTool =
  name :: json
  description :: json
  input_schema :: json
  server_name :: string

record server_entry =
  process :: process
  initialized :: bool

record MCPServerConfig =
  command :: string
  args :: "string list"
  env :: "string \<rightharpoonup> string"
  disabled :: bool

record client =
  config :: "(string \<times> MCPServerConfig) list"
  tools :: "(string \<times> MCPTool) list"
  server_data :: "(string \<times> server_entry) list"
  server_processes :: "(string \<times> string) list"
  client_initialized :: bool
  loop_running :: bool

definition stdin_write :: "process \<Rightarrow> json \<Rightarrow> exn + process" where
  "stdin_write p msg =
     (if stdin_broken p then Inl (ExternalError ''Connection lost'')
      else Inr (p\<lparr>stdin_lines := stdin_lines p @ [msg]\<rparr>))"

definition readline :: "process \<Rightarrow> read \<times> process" where
  "readline p = (case stdout p of [] \<Rightarrow> (RTimeout, p) | r # rs \<Rightarrow> (r, p\<lparr>stdout := rs\<rparr>))"

text \<open>\<^verbatim>\<open>json.loads(response_line.decode().strip())\<close>\<close>

definition parse_line :: "runtime \<Rightarrow> string \<Rightarrow> exn + json" where
  "parse_line rt l = bind_exn (decode rt l) (\<lambda>s. loads rt (strip s))"

definition error_dict :: "json \<Rightarrow> json" where
  "error_dict m = JObj [(''error'', m)]"

definition result_dict :: "json \<Rightarrow> json" where
  "result_dict p = JObj [(''result'', p)]"

text \<open>\<^verbatim>\<open>tool_name in self.tools\<close> and \<^verbatim>\<open>self.tools[tool_name]\<close>: the keys are strings.\<close>

fun lookup_tool :: "client \<Rightarrow> json \<Rightarrow> MCPTool option" where
  "lookup_tool c (JStr s) = map_of (tools c) s"
| "lookup_tool c v = None"

subsection \<open>Calling a tool\<close>

text \<open>The request of lines 338-346; \<open>now\<close> is \<^verbatim>\<open>int(time.time())\<close>.\<close>

definition tool_request :: "int \<Rightarrow> MCPTool \<Rightarrow> json \<Rightarrow> json" where
  "tool_request now tool arguments =
     JObj [(''jsonrpc'', JStr ''2.0''),
           (''id'', JInt now),
           (''method'', JStr ''tools/call''),
           (''params'', JObj [(''name'', name tool), (''arguments'', arguments)])]"

text \<open>Line 372: \<^verbatim>\<open>"method" in response and response["method"] == "notifications/message"\<close>\<close>

definition is_notification :: "json \<Rightarrow> exn + bool" where
  "is_notification response =
     bind_exn (str_in ''method'' response) (\<lambda>b.
       if \<not> b then Inr False
       else bind_exn (getitem response ''method'') (\<lambda>m. Inr (m = JStr ''notifications/message'')))"

text \<open>Line 376: \<^verbatim>\<open>"params" in response and "level" in response["params"]\<close>\<close>

definition has_level :: "json \<Rightarrow> exn + bool" where
  "has_level response =
     bind_exn (str_in ''params'' response) (\<lambda>b.
       if \<not> b then Inr False
       else bind_exn (getitem response ''params'') (\<lambda>ps. str_in ''level'' ps))"

text \<open>\<^verbatim>\<open>json_lib.loads(data)\<close> accepts a string only.\<close>

fun json_lib_loads :: "runtime \<Rightarrow> json \<Rightarrow> exn + json" where
  "json_lib_loads rt (JStr s) = loads rt s"
| "json_lib_loads rt v = Inl (TypeError (''the JSON object must be str, bytes or bytearray, not ''
                                          @ type_name v))"

text \<open>
  Lines 384-393, the \<^verbatim>\<open>try\<close> with the bare \<^verbatim>\<open>except: pass\<close>: the early return when the
  data of an error notification lists validation failures, \<open>None\<close> when the block falls through.
\<close>

definition validation_failure :: "runtime \<Rightarrow> json \<Rightarrow> json option" where
  "validation_failure rt data =
     (case bind_exn (str_in ''validation_failures'' data) (\<lambda>b.
             if \<not> b then Inr None
             else bind_exn (json_lib_loads rt data) (\<lambda>error_data.
               bind_exn (str_in ''validation_failures'' error_data) (\<lambda>b2.
                 if \<not> b2 then Inr None
                 else bind_exn (getitem error_data ''validation_failures'') (\<lambda>failures.
                   bind_exn (getitem0 failures) (\<lambda>failure.
                     bind_exn (py_get failure ''reason'' (JStr ''Unknown validation error'')) (\<lambda>reason.
                       Inr (Some (error_dict (JStr (''AWS CLI validation error: ''
                                                     @ py_str rt reason)))))))))) of
        Inl e \<Rightarrow> None
      | Inr r \<Rightarrow> r)"

text \<open>Lines 377-398: a notification that carries a level ends the call with an error.\<close>

definition level_outcome :: "runtime \<Rightarrow> json \<Rightarrow> exn + json" where
  "level_outcome rt response =
     bind_exn (getitem response ''params'') (\<lambda>ps.
       bind_exn (getitem ps ''level'') (\<lambda>level.
         bind_exn (py_get ps ''data'' (JStr ''No details provided'')) (\<lambda>data.
           if level = JStr ''error''
           then (case validation_failure rt data of
                   Some r \<Rightarrow> Inr r
                 | None \<Rightarrow> Inr (error_dict (JStr (''Server error: '' @ py_str rt data))))
           else Inr (error_dict (JStr (''Server notification ('' @ py_str rt level @ ''): ''
                                        @ py_str rt data))))))"

text \<open>Lines 416-433, the standard JSON-RPC response.\<close>

definition standard_response :: "runtime \<Rightarrow> json \<Rightarrow> exn + json" where
  "standard_response rt response =
     bind_exn (str_in ''error'' response) (\<lambda>has_error.
       if has_error
       then bind_exn (getitem response ''error'') (\<lambda>err.
              bind_exn (py_get err ''message'' (JStr (py_str rt err))) (\<lambda>error_message.
                Inr (error_dict error_message)))
       else bind_exn (str_in ''result'' response) (\<lambda>has_result.
              if has_result
              then bind_exn (getitem response ''result'') (\<lambda>res. Inr (result_dict res))
              else Inr (error_dict (JStr ''Invalid response format''))))"

text \<open>
  Lines 400-414: one more line is read after a notification without a level, with the inner
  \<^verbatim>\<open>try\<close> that catches the timeout only; any other exception goes to the outer handlers.
\<close>

definition after_notification :: "runtime \<Rightarrow> process \<Rightarrow> (exn + json) \<times> process" where
  "after_notification rt p =
     (case readline p of
        (RTimeout, p') \<Rightarrow>
          (Inr (error_dict (JStr ''Timeout waiting for response after notification'')), p')
      | (RRaise e, p') \<Rightarrow>
          (if e = TimeoutError
           then Inr (error_dict (JStr ''Timeout waiting for response after notification''))
           else Inl e, p')
      | (RLine l, p') \<Rightarrow>
          (if l \<noteq> []
           then (case parse_line rt l of
                   Inl e \<Rightarrow>
                     (if e = TimeoutError
                      then Inr (error_dict (JStr ''Timeout waiting for response after notification''))
                      else Inl e, p')
                 | Inr response \<Rightarrow> (standard_response rt response, p'))
           else (Inr (error_dict (JStr ''No response after notification'')), p')))"

text \<open>Lines 352-433, the body of the \<^verbatim>\<open>try\<close>: \<open>Inl\<close> is an exception on its way to the handlers.\<close>

definition exchange :: "runtime \<Rightarrow> process \<Rightarrow> json \<Rightarrow> (exn + json) \<times> process" where
  "exchange rt p request =
     (case stdin_write p request of
        Inl e \<Rightarrow> (Inl e, p)
      | Inr p1 \<Rightarrow>
          (case readline p1 of
             (RTimeout, p2) \<Rightarrow> (Inl TimeoutError, p2)
           | (RRaise e, p2) \<Rightarrow> (Inl e, p2)
           | (RLine l, p2) \<Rightarrow>
               (if l = [] then (Inr (error_dict (JStr ''No response from server'')), p2)
                else (case parse_line rt l of
                        Inl e \<Rightarrow> (Inl e, p2)
                      | Inr response \<Rightarrow>
                          (case is_notification response of
                             Inl e \<Rightarrow> (Inl e, p2)
                           | Inr False \<Rightarrow> (standard_response rt response, p2)
                           | Inr True \<Rightarrow>
                               (case has_level response of
                                  Inl e \<Rightarrow> (Inl e, p2)
                                | Inr True \<Rightarrow> (level_outcome rt response, p2)
                                | Inr False \<Rightarrow> after_notification rt p2))))))"

text \<open>Lines 435-446, the three handlers of the \<^verbatim>\<open>try\<close>.\<close>

fun call_handler :: "runtime \<Rightarrow> exn \<Rightarrow> json" where
  "call_handler rt TimeoutError = error_dict (JStr ''Tool call timeout'')"
| "call_handler rt (JSONDecodeError m) = error_dict (JStr (''JSON decode error: '' @ m))"
| "call_handler rt e = error_dict (JStr (str_exn rt e))"

text \<open>
  \<^verbatim>\<open>_async_call_tool\<close>. The lookups of lines 320-335 are outside the \<^verbatim>\<open>try\<close>: a tool
  name that cannot be hashed raises there, and the exception leaves the function.
\<close>

definition async_call_tool :: "runtime \<Rightarrow> client \<Rightarrow> int \<Rightarrow> json \<Rightarrow> json \<Rightarrow> (exn + json) \<times> client" where
  "async_call_tool rt c now tool_name arguments =
     (if \<not> hashable tool_name then (Inl (unhashable tool_name), c)
      else (case lookup_tool c tool_name of
              None \<Rightarrow> (Inr (error_dict (JStr (''Tool '' @ py_str rt tool_name @ '' not found''))), c)
            | Some tool \<Rightarrow>
                (case map_of (server_data c) (server_name tool) of
                   None \<Rightarrow> (Inr (error_dict (JStr (''Server '' @ server_name tool
                                                    @ '' not available''))), c)
                 | Some srv \<Rightarrow>
                     (case exchange rt (process srv) (tool_request now tool arguments) of
                        (r, p') \<Rightarrow>
                          (Inr (case r of Inl e \<Rightarrow> call_handler rt e | Inr d \<Rightarrow> d),
                           c\<lparr>server_data := dict_set (server_data c) (server_name tool)
                                               (srv\<lparr>process := p'\<rparr>)\<rparr>)))))"

text \<open>
  \<^verbatim>\<open>call_tool\<close>, with \<^verbatim>\<open>_run_in_loop\<close> inlined: it raises when the loop does not run.
  The 60 seconds that \<^verbatim>\<open>future.result\<close> waits are real time and not modelled.
\<close>

definition call_tool :: "runtime \<Rightarrow> client \<Rightarrow> int \<Rightarrow> json \<Rightarrow> json \<Rightarrow> json \<times> client" where
  "call_tool rt c now tool_name arguments =
     (if \<not> client_initialized c then (error_dict (JStr ''MCP client not initialized''), c)
      else if \<not> loop_running c
      then (error_dict (JStr (str_exn rt (RuntimeError ''MCP event loop not running''))), c)
      else (case async_call_tool rt c now tool_name arguments of
              (Inl e, c') \<Rightarrow> (error_dict (JStr (str_exn rt e)), c')
            | (Inr d, c') \<Rightarrow> (d, c')))"

subsection \<open>Starting the servers\<close>

text \<open>
  The host as the client sees it when it starts a server: the environment of the parent
  process, where \<^verbatim>\<open>uvx\<close> is, which paths exist, what \<^verbatim>\<open>~/.aws\<close> expands to, what
  reading the credentials file gives (the \<^verbatim>\<open>default\<close> section if there is one, each value
  readable or raising as interpolation errors do), and what comes of spawning a command in an
  environment.
\<close>

datatype cred_value = Value string | Raises exn

record host =
  environ :: "string \<rightharpoonup> string"
  which_uvx :: "string option"
  path_exists :: "string \<Rightarrow> bool"
  aws_home :: string
  read_credentials :: "string \<Rightarrow> exn + (string \<times> cred_value) list option"
  spawn :: "string list \<Rightarrow> (string \<rightharpoonup> string) \<Rightarrow> exn + process"
  bedrock_client_error :: "exn option"

text \<open>\<^verbatim>\<open>os.path.join(a, b)\<close> for a relative \<open>b\<close>.\<close>

definition path_join :: "string \<Rightarrow> string \<Rightarrow> string" where
  "path_join a b = (if a = [] \<or> last a = CHR ''/'' then a @ b else a @ ''/'' @ b)"

text \<open>Lines 114-124.\<close>

definition find_uvx :: "host \<Rightarrow> string option" where
  "find_uvx h =
     (case which_uvx h of
        Some p \<Rightarrow> if p \<noteq> [] then Some p
                  else find (path_exists h) [''/opt/homebrew/bin/uvx'', ''/usr/local/bin/uvx'', ''/usr/bin/uvx'']
      | None \<Rightarrow> find (path_exists h) [''/opt/homebrew/bin/uvx'', ''/usr/local/bin/uvx'', ''/usr/bin/uvx''])"

text \<open>
  Lines 141-157: the keys of the default profile are copied into the environment; an
  exception at any point is caught and leaves what was set before it.
\<close>

definition read_default_profile :: "host \<Rightarrow> (string \<rightharpoonup> string) \<Rightarrow> (string \<rightharpoonup> string)" where
  "read_default_profile h e =
     (if path_exists h (path_join (aws_home h) ''credentials'')
      then (case read_credentials h (path_join (aws_home h) ''credentials'') of
              Inl ex \<Rightarrow> e
            | Inr None \<Rightarrow> e
            | Inr (Some default_section) \<Rightarrow>
                (case map_of default_section ''aws_access_key_id'' of
                   Some (Raises ex) \<Rightarrow> e
                 | Some (Value v) \<Rightarrow>
                     (case map_of default_section ''aws_secret_access_key'' of
                        Some (Value w) \<Rightarrow> e(''AWS_ACCESS_KEY_ID'' \<mapsto> v, ''AWS_SECRET_ACCESS_KEY'' \<mapsto> w)
                      | _ \<Rightarrow> e(''AWS_ACCESS_KEY_ID'' \<mapsto> v))
                 | None \<Rightarrow>
                     (case map_of default_section ''aws_secret_access_key'' of
                        Some (Value w) \<Rightarrow> e(''AWS_SECRET_ACCESS_KEY'' \<mapsto> w)
                      | _ \<Rightarrow> e)))
      else e)"

definition aws_env_vars :: "string list" where
  "aws_env_vars = [''AWS_PROFILE'', ''AWS_REGION'', ''AWS_DEFAULT_REGION'',
                   ''AWS_ACCESS_KEY_ID'', ''AWS_SECRET_ACCESS_KEY'', ''AWS_SESSION_TOKEN'']"

text \<open>Lines 165-168: \<^verbatim>\<open>for var in aws_env_vars: if var in os.environ: env[var] = os.environ[var]\<close>\<close>

fun pass_through :: "(string \<rightharpoonup> string) \<Rightarrow> string list \<Rightarrow> (string \<rightharpoonup> string) \<Rightarrow> (string \<rightharpoonup> string)" where
  "pass_through parent [] e = e"
| "pass_through parent (var # vars) e =
     (case parent var of
        Some v \<Rightarrow> pass_through parent vars (e(var \<mapsto> v))
      | None \<Rightarrow> pass_through parent vars e)"

text \<open>Lines 128-176, the environment of the subprocess.\<close>

definition build_env :: "host \<Rightarrow> MCPServerConfig \<Rightarrow> (string \<rightharpoonup> string)" where
  "build_env h server_config =
     (let env1 = environ h ++ env server_config;
          env2 = (if path_exists h (aws_home h)
                  then read_default_profile h
                         (env1(''AWS_CONFIG_FILE'' \<mapsto> path_join (aws_home h) ''config'',
                               ''AWS_SHARED_CREDENTIALS_FILE'' \<mapsto> path_join (aws_home h) ''credentials''))
                  else env1);
          env3 = pass_through (environ h) aws_env_vars env2
      in if env3 ''AWS_REGION'' = None \<and> env3 ''AWS_DEFAULT_REGION'' = None
         then env3(''AWS_DEFAULT_REGION'' \<mapsto> ''ca-central-1'')
         else env3)"

text \<open>Lines 113-197: find the command, build the environment, start the process.\<close>

definition launch :: "host \<Rightarrow> MCPServerConfig \<Rightarrow> exn + process" where
  "launch h server_config =
     (case find_uvx h of
        None \<Rightarrow> Inl (Exception ''uvx command not found'')
      | Some uvx_path \<Rightarrow> spawn h (uvx_path # args server_config) (build_env h server_config))"

definition init_request :: json where
  "init_request =
     JObj [(''jsonrpc'', JStr ''2.0''),
           (''id'', JInt 1),
           (''method'', JStr ''initialize''),
           (''params'', JObj [(''protocolVersion'', JStr ''2024-11-05''),
                              (''capabilities'', JObj []),
                              (''clientInfo'', JObj [(''name'', JStr ''isolated-mcp-client''),
                                                     (''version'', JStr ''1.0.0'')])])]"

definition initialized_notification :: json where
  "initialized_notification =
     JObj [(''jsonrpc'', JStr ''2.0''), (''method'', JStr ''notifications/initialized'')]"

text \<open>
  Lines 202-246, the handshake: the request, one line within 15 seconds, the check of
  the error field, the notification. Every exception leaves the function.
\<close>

definition handshake :: "runtime \<Rightarrow> process \<Rightarrow> exn + process" where
  "handshake rt p =
     bind_exn (stdin_write p init_request) (\<lambda>p1.
       case readline p1 of
         (RTimeout, p2) \<Rightarrow> Inl TimeoutError
       | (RRaise e, p2) \<Rightarrow> Inl e
       | (RLine l, p2) \<Rightarrow>
           if l = [] then Inl (Exception ''No response from server'')
           else bind_exn (parse_line rt l) (\<lambda>response.
                  bind_exn (str_in ''error'' response) (\<lambda>has_error.
                    if has_error
                    then bind_exn (getitem response ''error'') (\<lambda>err.
                           Inl (Exception (''Server initialization error: '' @ py_str rt err)))
                    else stdin_write p2 initialized_notification)))"

definition tools_request :: json where
  "tools_request =
     JObj [(''jsonrpc'', JStr ''2.0''), (''id'', JInt 2), (''method'', JStr ''tools/list''),
           (''params'', JNull)]"

text \<open>Lines 299-304: one tool of the list.\<close>

definition make_tool :: "string \<Rightarrow> json \<Rightarrow> exn + MCPTool" where
  "make_tool sname tool_data =
     bind_exn (getitem tool_data ''name'') (\<lambda>n.
       bind_exn (getitem tool_data ''description'') (\<lambda>d.
         bind_exn (py_get tool_data ''inputSchema'' (JObj [])) (\<lambda>s.
           Inr \<lparr>name = n, description = d, input_schema = s, server_name = sname\<rparr>)))"

text \<open>Lines 298-305: the loop stops at the first exception, with what it has registered.\<close>

fun register_tools :: "runtime \<Rightarrow> string \<Rightarrow> (string \<times> MCPTool) list \<Rightarrow> json list
                         \<Rightarrow> (string \<times> MCPTool) list" where
  "register_tools rt sname ts [] = ts"
| "register_tools rt sname ts (tool_data # rest) =
     (case make_tool sname tool_data of
        Inl e \<Rightarrow> ts
      | Inr tool \<Rightarrow>
          register_tools rt sname (dict_set ts (sname @ '':'' @ py_str rt (name tool)) tool) rest)"

text \<open>Lines 294-296: the list of tools of a response, if it has one.\<close>

definition tools_of_response :: "json \<Rightarrow> exn + json list option" where
  "tools_of_response response =
     bind_exn (str_in ''result'' response) (\<lambda>has_result.
       if \<not> has_result then Inr None
       else bind_exn (getitem response ''result'') (\<lambda>res.
              bind_exn (str_in ''tools'' res) (\<lambda>has_tools.
                if \<not> has_tools then Inr None
                else bind_exn (getitem res ''tools'') (\<lambda>ts.
                       bind_exn (py_len ts) (\<lambda>n.
                         bind_exn (py_iter ts) (\<lambda>items. Inr (Some items)))))))"

text \<open>
  \<^verbatim>\<open>_async_get_server_tools\<close>: everything is inside one \<^verbatim>\<open>try\<close> whose handler logs, so
  the function never raises; it returns the catalog and the process as they are then.
\<close>

definition async_get_server_tools :: "runtime \<Rightarrow> string \<Rightarrow> (string \<times> MCPTool) list \<Rightarrow> process
                                        \<Rightarrow> (string \<times> MCPTool) list \<times> process" where
  "async_get_server_tools rt sname ts p =
     (case stdin_write p tools_request of
        Inl e \<Rightarrow> (ts, p)
      | Inr p1 \<Rightarrow>
          (case readline p1 of
             (RLine l, p2) \<Rightarrow>
               (if l = [] then (ts, p2)
                else (case bind_exn (parse_line rt l) tools_of_response of
                        Inr (Some items) \<Rightarrow> (register_tools rt sname ts items, p2)
                      | _ \<Rightarrow> (ts, p2)))
           | (r, p2) \<Rightarrow> (ts, p2)))"

text \<open>\<^verbatim>\<open>_async_initialize_server\<close>: \<open>Inl\<close> is the exception that line 264 raises again.\<close>

definition async_initialize_server :: "runtime \<Rightarrow> host \<Rightarrow> client \<Rightarrow> string \<Rightarrow> MCPServerConfig
                                         \<Rightarrow> exn + client" where
  "async_initialize_server rt h c sname server_config =
     bind_exn (launch h server_config) (\<lambda>p0.
       bind_exn (handshake rt p0) (\<lambda>p1.
         case async_get_server_tools rt sname (tools c) p1 of
           (ts, p2) \<Rightarrow>
             Inr (c\<lparr>tools := ts,
                    server_data := dict_set (server_data c) sname
                                     \<lparr>process = p2, initialized = True\<rparr>,
                    server_processes := dict_set (server_processes c) sname
                                          (''isolated-'' @ sname)\<rparr>)))"

text \<open>Lines 100-105: a server that fails is logged and the loop goes on.\<close>

fun initialize_servers :: "runtime \<Rightarrow> host \<Rightarrow> client \<Rightarrow> (string \<times> MCPServerConfig) list \<Rightarrow> client" where
  "initialize_servers rt h c [] = c"
| "initialize_servers rt h c ((sname, server_config) # rest) =
     (case async_initialize_server rt h c sname server_config of
        Inl e \<Rightarrow> initialize_servers rt h c rest
      | Inr c' \<Rightarrow> initialize_servers rt h c' rest)"

text \<open>\<^verbatim>\<open>get_enabled_servers\<close> of the configuration, and the filter of line 90.\<close>

definition official_servers :: "client \<Rightarrow> (string \<times> MCPServerConfig) list" where
  "official_servers c =
     filter (\<lambda>(n, server). command server = ''uvx'')
       (filter (\<lambda>(n, server). \<not> disabled server) (config c))"

definition async_initialize :: "runtime \<Rightarrow> host \<Rightarrow> client \<Rightarrow> client" where
  "async_initialize rt h c =
     (if official_servers c = [] then c
      else initialize_servers rt h c (official_servers c))"

text \<open>
  \<^verbatim>\<open>initialize\<close> of the client: the loop thread is started, then the servers. (The
  60 seconds of \<^verbatim>\<open>future.result\<close> are real time and not modelled.)
\<close>

definition client_initialize :: "runtime \<Rightarrow> host \<Rightarrow> client \<Rightarrow> client" where
  "client_initialize rt h c =
     (if client_initialized c then c
      else (async_initialize rt h (c\<lparr>loop_running := True\<rparr>))\<lparr>client_initialized := True\<rparr>)"

section \<open>The agent (core/agent.py)\<close>

subsection \<open>Repairing the arguments of a tool call\<close>

text \<open>
  The fixed table of lines 448-464: for a tool, the legacy name of a parameter and the
  name that replaces it.
\<close>

definition alias_of :: "string \<Rightarrow> (string \<times> string) option" where
  "alias_of tool_name =
     (if tool_name = ''aws-api:call_aws'' then Some (''command'', ''cli_command'')
      else if tool_name = ''aws-api:suggest_aws_commands'' then Some (''command'', ''query'')
      else if tool_name = ''aws-docs:search_documentation'' then Some (''search'', ''search_phrase'')
      else None)"

text \<open>\<^verbatim>\<open>arguments.copy()\<close>: a dict and a list have the method.\<close>

fun py_copy :: "json \<Rightarrow> exn + json" where
  "py_copy (JObj d) = Inr (JObj d)"
| "py_copy (JArr xs) = Inr (JArr xs)"
| "py_copy v = Inl (no_attribute v ''copy'')"

text \<open>\<^verbatim>\<open>fixed_arguments[canon] = fixed_arguments.pop(alias)\<close>\<close>

fun pop_into :: "json \<Rightarrow> string \<Rightarrow> string \<Rightarrow> exn + json" where
  "pop_into (JObj d) alias canon =
     (case map_of d alias of
        None \<Rightarrow> Inl (KeyError (JStr alias))
      | Some v \<Rightarrow> Inr (JObj (dict_set (dict_pop d alias) canon v)))"
| "pop_into (JArr xs) alias canon =
     Inl (TypeError ([CHR 0x27] @ ''str'' @ [CHR 0x27] @ '' object cannot be interpreted as an integer''))"
| "pop_into v alias canon = Inl (no_attribute v ''pop'')"

text \<open>\<^verbatim>\<open>if alias in fixed_arguments and canon not in fixed_arguments: ...\<close>\<close>

definition rename_alias :: "string \<Rightarrow> string \<Rightarrow> json \<Rightarrow> exn + json" where
  "rename_alias alias canon fixed_arguments =
     bind_exn (str_in alias fixed_arguments) (\<lambda>has_alias.
       if \<not> has_alias then Inr fixed_arguments
       else bind_exn (str_in canon fixed_arguments) (\<lambda>has_canon.
              if has_canon then Inr fixed_arguments
              else pop_into fixed_arguments alias canon))"

text \<open>\<^verbatim>\<open>props.keys()\<close>\<close>

fun py_keys :: "json \<Rightarrow> exn + string list" where
  "py_keys (JObj d) = Inr (dict_keys d)"
| "py_keys v = Inl (no_attribute v ''keys'')"

text \<open>
  Lines 484-487: \<^verbatim>\<open>param not in fixed_arguments\<close> for each required parameter. What is
  missing is only logged; the test itself raises on a parameter that cannot be hashed when
  the arguments are a dict.
\<close>

fun check_required :: "json \<Rightarrow> json list \<Rightarrow> exn + unit" where
  "check_required fixed_arguments [] = Inr ()"
| "check_required fixed_arguments (param # params) =
     (case fixed_arguments of
        JObj d \<Rightarrow> if hashable param then check_required fixed_arguments params
                  else Inl (unhashable param)
      | _ \<Rightarrow> check_required fixed_arguments params)"

text \<open>Lines 495-498: the keys that the schema does not list are removed.\<close>

fun drop_unknown :: "json \<Rightarrow> string list \<Rightarrow> exn + json" where
  "drop_unknown (JObj d) available_params =
     Inr (JObj (filter (\<lambda>kv. fst kv \<in> set available_params) d))"
| "drop_unknown v available_params = Inl (no_attribute v ''keys'')"

text \<open>Lines 472-503.\<close>

definition schema_filter :: "MCPTool \<Rightarrow> json \<Rightarrow> exn + json" where
  "schema_filter tool fixed_arguments =
     (if \<not> truthy (input_schema tool) then Inr fixed_arguments
      else bind_exn (str_in ''properties'' (input_schema tool)) (\<lambda>has_properties.
             if \<not> has_properties then Inr fixed_arguments
             else bind_exn (py_get (input_schema tool) ''required'' (JArr [])) (\<lambda>required.
                    bind_exn (getitem (input_schema tool) ''properties'') (\<lambda>props.
                      bind_exn (py_keys props) (\<lambda>available_params.
                        bind_exn (py_iter required) (\<lambda>required_params.
                          bind_exn (check_required fixed_arguments required_params) (\<lambda>u.
                            drop_unknown fixed_arguments available_params)))))))"

text \<open>\<^verbatim>\<open>_validate_and_fix_tool_arguments\<close>\<close>

definition validate_and_fix_tool_arguments :: "client \<Rightarrow> json \<Rightarrow> json \<Rightarrow> exn + json" where
  "validate_and_fix_tool_arguments c tool_name arguments =
     (if \<not> hashable tool_name then Inl (unhashable tool_name)
      else (case lookup_tool c tool_name of
              None \<Rightarrow> Inr arguments
            | Some tool \<Rightarrow>
                bind_exn (py_copy arguments) (\<lambda>copied.
                  bind_exn (case tool_name of
                              JStr s \<Rightarrow> (case alias_of s of
                                           None \<Rightarrow> Inr copied
                                         | Some (alias, canon) \<Rightarrow> rename_alias alias canon copied)
                            | _ \<Rightarrow> Inr copied)
                    (schema_filter tool))))"

subsection \<open>The language model\<close>

text \<open>
  \<^verbatim>\<open>_call_bedrock\<close> is outside the model: the text it returns or the exception it raises
  is an input of each of the two calls, and the prompts are not built.

  Line 309, \<^verbatim>\<open>re.search(r'\{.*\}', response, re.DOTALL)\<close>: the match starts at the first
  opening brace that has a closing brace after it and, being greedy, ends at the last
  closing brace of the text.
\<close>

definition extract_json :: "string \<Rightarrow> string option" where
  "extract_json response =
     (case dropWhile (\<lambda>c. c \<noteq> CHR ''{'') response of
        [] \<Rightarrow> None
      | c # rest \<Rightarrow>
          if CHR ''}'' \<in> set rest
          then Some (c # rev (dropWhile (\<lambda>c. c \<noteq> CHR ''}'') (rev rest)))
          else None)"

definition no_tools :: "string \<Rightarrow> json" where
  "no_tools reasoning = JObj [(''needs_tools'', JBool False), (''reasoning'', JStr reasoning)]"

text \<open>Lines 321-328, the two handlers of \<^verbatim>\<open>_analyze_intent\<close>.\<close>

fun intent_handler :: "runtime \<Rightarrow> exn \<Rightarrow> json" where
  "intent_handler rt (JSONDecodeError m) = no_tools (''JSON parse error: '' @ m)"
| "intent_handler rt e = no_tools (''Analysis error: '' @ str_exn rt e)"

text \<open>\<^verbatim>\<open>_analyze_intent\<close>, given what the call of the model gives.\<close>

definition analyze_intent :: "runtime \<Rightarrow> exn + string \<Rightarrow> json" where
  "analyze_intent rt intent_reply =
     (case intent_reply of
        Inl e \<Rightarrow> intent_handler rt e
      | Inr response \<Rightarrow>
          (case extract_json response of
             None \<Rightarrow> no_tools ''Could not parse intent''
           | Some json_str \<Rightarrow>
               (case loads rt json_str of
                  Inl e \<Rightarrow> intent_handler rt e
                | Inr parsed_intent \<Rightarrow> parsed_intent)))"

definition sorry_prefix :: string where
  "sorry_prefix = ''Je suis d'' @ [CHR 0xC3, CHR 0xA9] @ ''sol'' @ [CHR 0xC3, CHR 0xA9]"

text \<open>\<^verbatim>\<open>_generate_response\<close>, given what the call of the model gives.\<close>

definition generate_response :: "runtime \<Rightarrow> exn + string \<Rightarrow> string" where
  "generate_response rt final_reply =
     (case final_reply of
        Inr response \<Rightarrow> strip response
      | Inl e \<Rightarrow> sorry_prefix @ '', je n'ai pas pu g'' @ [CHR 0xC3, CHR 0xA9] @ ''n''
                 @ [CHR 0xC3, CHR 0xA9] @ ''rer une r'' @ [CHR 0xC3, CHR 0xA9] @ ''ponse: ''
                 @ str_exn rt e)"

subsection \<open>The messages for an exception that reaches \<^verbatim>\<open>process_message\<close>\<close>

definition credentials_message :: string where
  "credentials_message =
     sorry_prefix @ '', il y a un probl'' @ [CHR 0xC3, CHR 0xA8]
     @ ''me avec les identifiants AWS. '' @ [CHR 0x0A, CHR 0x0A]
     @ ''Veuillez configurer vos identifiants AWS :'' @ [CHR 0x0A]
     @ ''1. Utilisez `aws configure` pour configurer vos identifiants'' @ [CHR 0x0A]
     @ ''2. Ou d'' @ [CHR 0xC3, CHR 0xA9]
     @ ''finissez les variables d'environnement AWS_ACCESS_KEY_ID et AWS_SECRET_ACCESS_KEY''
     @ [CHR 0x0A] @ ''3. Ou utilisez un profil AWS avec `export AWS_PROFILE=votre-profil`''
     @ [CHR 0x0A, CHR 0x0A] @ ''Une fois configur'' @ [CHR 0xC3, CHR 0xA9] @ '', red''
     @ [CHR 0xC3, CHR 0xA9] @ ''marrez l'application.''"

definition validation_message :: string where
  "validation_message =
     sorry_prefix @ '', il y a eu un probl'' @ [CHR 0xC3, CHR 0xA8]
     @ ''me avec la validation de la requ'' @ [CHR 0xC3, CHR 0xAA] @ ''te. Veuillez r''
     @ [CHR 0xC3, CHR 0xA9] @ ''essayer.''"

definition throttling_message :: string where
  "throttling_message =
     sorry_prefix @ '', il y a eu trop de requ'' @ [CHR 0xC3, CHR 0xAA]
     @ ''tes. Veuillez attendre un moment et r'' @ [CHR 0xC3, CHR 0xA9] @ ''essayer.''"

definition event_loop_message :: string where
  "event_loop_message =
     sorry_prefix @ '', il y a eu un probl'' @ [CHR 0xC3, CHR 0xA8]
     @ ''me technique avec les boucles d'' @ [CHR 0x27, CHR 0xC3, CHR 0xA9] @ ''v''
     @ [CHR 0xC3, CHR 0xA9] @ ''nements asynchrones. '' @ [CHR 0x0A, CHR 0x0A] @ ''Cela peut ''
     @ [CHR 0xC3, CHR 0xAA] @ ''tre r'' @ [CHR 0xC3, CHR 0xA9] @ ''solu en red''
     @ [CHR 0xC3, CHR 0xA9] @ ''marrant l'application. Veuillez :'' @ [CHR 0x0A] @ ''1. Arr''
     @ [CHR 0xC3, CHR 0xAA] @ ''ter l'application (Ctrl+C)'' @ [CHR 0x0A] @ ''2. Red''
     @ [CHR 0xC3, CHR 0xA9] @ ''marrer avec ./run.sh'' @ [CHR 0x0A, CHR 0x0A] @ ''Si le probl''
     @ [CHR 0xC3, CHR 0xA8]
     @ ''me persiste, il pourrait y avoir un conflit dans l'environnement d'ex''
     @ [CHR 0xC3, CHR 0xA9] @ ''cution.''"

definition generic_message :: "string \<Rightarrow> string" where
  "generic_message text = sorry_prefix @ '', une erreur s'est produite: '' @ text"

text \<open>Lines 193-220: the message is chosen by what the text of the exception contains.\<close>

definition fallback_message :: "runtime \<Rightarrow> exn \<Rightarrow> string" where
  "fallback_message rt e =
     (if str_contains ''Unable to locate credentials'' (str_exn rt e) then credentials_message
      else if str_contains ''ValidationException'' (str_exn rt e) then validation_message
      else if str_contains ''ThrottlingException'' (str_exn rt e) then throttling_message
      else if str_contains ''event loop'' (lower (str_exn rt e))
              \<or> str_contains ''asyncio'' (lower (str_exn rt e)) then event_loop_message
      else generic_message (str_exn rt e))"

subsection \<open>Processing a message\<close>

record tool_result =
  tool :: json
  result :: json
  fallback_reason :: "string option"

record turn =
  user :: string
  assistant :: string
  tools_used :: "json list"

record agent =
  mcp_client :: client
  conversation_history :: "turn list"
  agent_initialized :: bool
  last_tool_calls :: "json list"

text \<open>
  The state of the loop over the tool calls: the agent, how many times \<^verbatim>\<open>call_tool\<close> has
  run for this message (the clock is read once in each), and the local \<^verbatim>\<open>tool_results\<close>.
\<close>

record run =
  agent_of :: agent
  calls :: nat
  tool_results :: "tool_result list"

definition record_result :: "run \<Rightarrow> tool_result \<Rightarrow> run" where
  "record_result r tr = r\<lparr>tool_results := tool_results r @ [tr]\<rparr>"

text \<open>\<^verbatim>\<open>self.mcp_client.call_tool(...)\<close> from the loop; \<open>clock n\<close> is what \<^verbatim>\<open>int(time.time())\<close>
  gives in the call number \<open>n\<close>.\<close>

definition client_call :: "runtime \<Rightarrow> (nat \<Rightarrow> int) \<Rightarrow> run \<Rightarrow> json \<Rightarrow> json \<Rightarrow> json \<times> run" where
  "client_call rt clock r tool_name arguments =
     (case call_tool rt (mcp_client (agent_of r)) (clock (calls r)) tool_name arguments of
        (res, c') \<Rightarrow> (res, r\<lparr>agent_of := (agent_of r)\<lparr>mcp_client := c'\<rparr>, calls := Suc (calls r)\<rparr>))"

text \<open>
  Lines 113-121, the three nested tests: the result is an error, its text in lower case
  contains \<^verbatim>\<open>validation\<close> or \<^verbatim>\<open>parameters\<close>, and the call was \<^verbatim>\<open>aws-api:call_aws\<close> with
  a \<^verbatim>\<open>cli_command\<close> among the repaired arguments.
\<close>

definition wants_fallback :: "json \<Rightarrow> json \<Rightarrow> json \<Rightarrow> exn + bool" where
  "wants_fallback res tool_name fixed_arguments =
     bind_exn (str_in ''error'' res) (\<lambda>has_error.
       if \<not> has_error then Inr False
       else bind_exn (getitem res ''error'') (\<lambda>err.
              bind_exn (py_lower err) (\<lambda>low.
                if str_contains ''validation'' low \<or> str_contains ''parameters'' low
                then (if tool_name = JStr ''aws-api:call_aws''
                      then str_in ''cli_command'' fixed_arguments
                      else Inr False)
                else Inr False)))"

text \<open>
  Lines 124-143: the call of the suggestion tool and what is recorded after it. An
  exception here is inside the \<^verbatim>\<open>try\<close> of line 98, whose handler (lines 160-165) records it.
\<close>

definition suggest_fallback :: "runtime \<Rightarrow> (nat \<Rightarrow> int) \<Rightarrow> string \<Rightarrow> run \<Rightarrow> json \<Rightarrow> json \<Rightarrow> run" where
  "suggest_fallback rt clock user_message r tool_name res =
     (case client_call rt clock r (JStr ''aws-api:suggest_aws_commands'')
             (JObj [(''query'', JStr user_message)]) of
        (suggestion_result, r') \<Rightarrow>
          record_result r'
            (case bind_exn (str_in ''result'' suggestion_result) (\<lambda>has_result.
                    if has_result
                    then bind_exn (getitem res ''error'') (\<lambda>err.
                           Inr \<lparr>tool = JStr ''aws-api:suggest_aws_commands'',
                                result = suggestion_result,
                                fallback_reason = Some (''Original command failed validation: ''
                                                        @ py_str rt err)\<rparr>)
                    else Inr \<lparr>tool = tool_name, result = res, fallback_reason = None\<rparr>) of
               Inl e \<Rightarrow> \<lparr>tool = tool_name, result = error_dict (JStr (str_exn rt e)),
                         fallback_reason = None\<rparr>
             | Inr tr \<Rightarrow> tr))"

text \<open>
  Lines 98-165, the inner \<^verbatim>\<open>try\<close> with its handler: whatever is raised inside becomes the
  recorded result of this call. The state that the handler sees is the one reached when the
  exception was raised.
\<close>

definition guarded_call :: "runtime \<Rightarrow> (nat \<Rightarrow> int) \<Rightarrow> string \<Rightarrow> run \<Rightarrow> json \<Rightarrow> json \<Rightarrow> run" where
  "guarded_call rt clock user_message r tool_name arguments =
     (case validate_and_fix_tool_arguments (mcp_client (agent_of r)) tool_name arguments of
        Inl e \<Rightarrow> record_result r \<lparr>tool = tool_name, result = error_dict (JStr (str_exn rt e)),
                                  fallback_reason = None\<rparr>
      | Inr fixed_arguments \<Rightarrow>
          (case client_call rt clock r tool_name fixed_arguments of
             (res, r1) \<Rightarrow>
               (case wants_fallback res tool_name fixed_arguments of
                  Inl e \<Rightarrow> record_result r1 \<lparr>tool = tool_name,
                                              result = error_dict (JStr (str_exn rt e)),
                                              fallback_reason = None\<rparr>
                | Inr False \<Rightarrow> record_result r1 \<lparr>tool = tool_name, result = res,
                                                  fallback_reason = None\<rparr>
                | Inr True \<Rightarrow> suggest_fallback rt clock user_message r1 tool_name res)))"

text \<open>
  Lines 88-165, one round of the loop. Reading the name of the call (line 89) is outside
  the inner \<^verbatim>\<open>try\<close>: an exception there leaves the loop, with the state as it is.
\<close>

definition one_tool_call :: "runtime \<Rightarrow> (nat \<Rightarrow> int) \<Rightarrow> string \<Rightarrow> run \<Rightarrow> json \<Rightarrow> exn option \<times> run" where
  "one_tool_call rt clock user_message r tool_call =
     (case getitem tool_call ''name'' of
        Inl e \<Rightarrow> (Some e, r)
      | Inr tool_name \<Rightarrow>
          (case py_get tool_call ''arguments'' (JObj []) of
             Inl e \<Rightarrow> (Some e, r)
           | Inr arguments \<Rightarrow>
               (None,
                guarded_call rt clock user_message
                  (r\<lparr>agent_of := (agent_of r)\<lparr>last_tool_calls :=
                        last_tool_calls (agent_of r)
                        @ [JObj [(''name'', tool_name), (''arguments'', arguments)]]\<rparr>\<rparr>)
                  tool_name arguments)))"

fun execute_tools :: "runtime \<Rightarrow> (nat \<Rightarrow> int) \<Rightarrow> string \<Rightarrow> run \<Rightarrow> json list \<Rightarrow> exn option \<times> run" where
  "execute_tools rt clock user_message r [] = (None, r)"
| "execute_tools rt clock user_message r (tool_call # rest) =
     (case one_tool_call rt clock user_message r tool_call of
        (Some e, r') \<Rightarrow> (Some e, r')
      | (None, r') \<Rightarrow> execute_tools rt clock user_message r' rest)"

text \<open>Lines 83-167: step 2, from the analysis of the intent to the results of the tools.\<close>

definition run_tools :: "runtime \<Rightarrow> (nat \<Rightarrow> int) \<Rightarrow> string \<Rightarrow> agent \<Rightarrow> json \<Rightarrow> exn option \<times> run" where
  "run_tools rt clock user_message a intent_analysis =
     (case py_get intent_analysis ''needs_tools'' (JBool False) of
        Inl e \<Rightarrow> (Some e, \<lparr>agent_of = a, calls = 0, tool_results = []\<rparr>)
      | Inr needs_tools \<Rightarrow>
          if \<not> truthy needs_tools then (None, \<lparr>agent_of = a, calls = 0, tool_results = []\<rparr>)
          else (case bind_exn (py_get intent_analysis ''tool_calls'' (JArr [])) (\<lambda>tool_calls.
                       bind_exn (py_len tool_calls) (\<lambda>n. py_iter tool_calls)) of
                  Inl e \<Rightarrow> (Some e, \<lparr>agent_of = a, calls = 0, tool_results = []\<rparr>)
                | Inr items \<Rightarrow>
                    execute_tools rt clock user_message
                      \<lparr>agent_of = a, calls = 0, tool_results = []\<rparr> items))"

text \<open>\<^verbatim>\<open>initialize\<close> of the agent: the client of the model, then the client of the servers.\<close>

definition agent_initialize :: "runtime \<Rightarrow> host \<Rightarrow> agent \<Rightarrow> exn + agent" where
  "agent_initialize rt h a =
     (if agent_initialized a then Inr a
      else (case bedrock_client_error h of
              Some e \<Rightarrow> Inl e
            | None \<Rightarrow> Inr (a\<lparr>mcp_client := client_initialize rt h (mcp_client a),
                             agent_initialized := True\<rparr>)))"

text \<open>
  \<^verbatim>\<open>process_message\<close>. \<open>intent_reply\<close> and \<open>final_reply\<close> are what the two calls of
  the model give. Lines 68-69 are before the \<^verbatim>\<open>try\<close>: an exception of the initialization
  is the only one that leaves the function (\<open>Inl\<close>).
\<close>

definition process_message :: "runtime \<Rightarrow> host \<Rightarrow> (nat \<Rightarrow> int) \<Rightarrow> exn + string \<Rightarrow> exn + string
                                 \<Rightarrow> agent \<Rightarrow> string \<Rightarrow> (exn + string) \<times> agent" where
  "process_message rt h clock intent_reply final_reply a user_message =
     (case agent_initialize rt h a of
        Inl e \<Rightarrow> (Inl e, a)
      | Inr a0 \<Rightarrow>
          (case run_tools rt clock user_message (a0\<lparr>last_tool_calls := []\<rparr>)
                  (analyze_intent rt intent_reply) of
             (Some e, r) \<Rightarrow> (Inr (fallback_message rt e), agent_of r)
           | (None, r) \<Rightarrow>
               (Inr (generate_response rt final_reply),
                (agent_of r)\<lparr>conversation_history :=
                   conversation_history (agent_of r)
                   @ [\<lparr>user = user_message,
                       assistant = generate_response rt final_reply,
                       tools_used = map tool (tool_results r)\<rparr>]\<rparr>)))"

section \<open>The span that the specification describes\<close>

text \<open>
  The specification speaks of the first balanced JSON object of a text: from the first
  opening brace to the closing brace that brings the depth back to zero. This definition
  follows those words, to be compared with \<open>extract_json\<close>.
\<close>

fun balanced_prefix :: "nat \<Rightarrow> string \<Rightarrow> string option" where
  "balanced_prefix depth [] = None"
| "balanced_prefix depth (c # cs) =
     (if c = CHR ''{'' then map_option ((#) c) (balanced_prefix (Suc depth) cs)
      else if c = CHR ''}''
      then (if depth \<le> 1 then Some [c] else map_option ((#) c) (balanced_prefix (depth - 1) cs))
      else map_option ((#) c) (balanced_prefix depth cs))"

definition spec_first_balanced_object :: "string \<Rightarrow> string option" where
  "spec_first_balanced_object response =
     balanced_prefix 0 (dropWhile (\<lambda>c. c \<noteq> CHR ''{'') response)"

section \<open>Notions used in the statements\<close>

text \<open>
  A call reaches a server when the client is initialised, its loop runs, and the tool name is
  in the catalog with its server among the active ones: \<open>serving\<close> gives that tool and the
  entry of that server. \<open>unread\<close> is what a server has printed and the client has not read,
  \<open>sent\<close> what the client has written to it.
\<close>

definition serving :: "client \<Rightarrow> json \<Rightarrow> (MCPTool \<times> server_entry) option" where
  "serving c tool_name =
     (if client_initialized c \<and> loop_running c \<and> hashable tool_name
      then (case lookup_tool c tool_name of
              None \<Rightarrow> None
            | Some t \<Rightarrow> map_option (Pair t) (map_of (server_data c) (server_name t)))
      else None)"




section \<open>Example inputs\<close>

text \<open>
  A catalog with three tools on two servers, as the servers of the configuration announce
  them, and lines that such a server can print. The example runtime parses exactly these
  lines and rejects any other text.
\<close>

definition call_aws_tool :: MCPTool where
  "call_aws_tool =
     \<lparr>name = JStr ''call_aws'', description = JStr ''Execute an AWS CLI command'',
      input_schema = JObj [(''type'', JStr ''object''),
                           (''properties'', JObj [(''cli_command'', JObj [(''type'', JStr ''string'')])]),
                           (''required'', JArr [JStr ''cli_command''])],
      server_name = ''aws-api''\<rparr>"

definition suggest_tool :: MCPTool where
  "suggest_tool =
     \<lparr>name = JStr ''suggest_aws_commands'', description = JStr ''Suggest AWS CLI commands'',
      input_schema = JObj [(''type'', JStr ''object''),
                           (''properties'', JObj [(''query'', JObj [(''type'', JStr ''string'')])]),
                           (''required'', JArr [JStr ''query''])],
      server_name = ''aws-api''\<rparr>"

definition search_tool :: MCPTool where
  "search_tool =
     \<lparr>name = JStr ''search_documentation'', description = JStr ''Search the AWS documentation'',
      input_schema = JObj [(''type'', JStr ''object''),
                           (''properties'', JObj [(''search_phrase'', JObj [(''type'', JStr ''string'')]),
                                                  (''limit'', JObj [(''type'', JStr ''integer'')])]),
                           (''required'', JArr [JStr ''search_phrase''])],
      server_name = ''aws-docs''\<rparr>"

definition quiet_process :: "read list \<Rightarrow> process" where
  "quiet_process out = \<lparr>stdin_broken = False, stdin_lines = [], stdout = out\<rparr>"

definition example_client :: "read list \<Rightarrow> read list \<Rightarrow> client" where
  "example_client api_out docs_out =
     \<lparr>config = [],
      tools = [(''aws-api:call_aws'', call_aws_tool),
               (''aws-api:suggest_aws_commands'', suggest_tool),
               (''aws-docs:search_documentation'', search_tool)],
      server_data = [(''aws-api'', \<lparr>process = quiet_process api_out, initialized = True\<rparr>),
                     (''aws-docs'', \<lparr>process = quiet_process docs_out, initialized = True\<rparr>)],
      server_processes = [(''aws-api'', ''isolated-aws-api''), (''aws-docs'', ''isolated-aws-docs'')],
      client_initialized = True,
      loop_running = True\<rparr>"

definition line_result :: string where
  \<open>line_result = ''{"jsonrpc":"2.0","id":1000,"result":{"ok":true}}''\<close>

definition line_result_other_id :: string where
  \<open>line_result_other_id = ''{"jsonrpc":"2.0","id":7,"result":{"ok":true}}''\<close>

definition line_result_no_id :: string where
  \<open>line_result_no_id = ''{"jsonrpc":"2.0","result":{"ok":true}}''\<close>

definition line_error :: string where
  \<open>line_error = ''{"jsonrpc":"2.0","id":1000,"error":{"code":-32602,"message":"Invalid parameters"}}''\<close>

definition line_notice_info :: string where
  \<open>line_notice_info = ''{"jsonrpc":"2.0","method":"notifications/message","params":{"level":"info","data":"Processing request"}}''\<close>

definition line_notice_bare :: string where
  \<open>line_notice_bare = ''{"jsonrpc":"2.0","method":"notifications/message"}''\<close>

definition example_lines :: "(string \<times> json) list" where
  "example_lines =
     [(line_result, JObj [(''jsonrpc'', JStr ''2.0''), (''id'', JInt 1000),
                          (''result'', JObj [(''ok'', JBool True)])]),
      (line_result_other_id, JObj [(''jsonrpc'', JStr ''2.0''), (''id'', JInt 7),
                                   (''result'', JObj [(''ok'', JBool True)])]),
      (line_result_no_id, JObj [(''jsonrpc'', JStr ''2.0''),
                                (''result'', JObj [(''ok'', JBool True)])]),
      (line_error, JObj [(''jsonrpc'', JStr ''2.0''), (''id'', JInt 1000),
                         (''error'', JObj [(''code'', JInt (- 32602)),
                                           (''message'', JStr ''Invalid parameters'')])]),
      (line_notice_info, JObj [(''jsonrpc'', JStr ''2.0''),
                               (''method'', JStr ''notifications/message''),
                               (''params'', JObj [(''level'', JStr ''info''),
                                                  (''data'', JStr ''Processing request'')])]),
      (line_notice_bare, JObj [(''jsonrpc'', JStr ''2.0''),
                               (''method'', JStr ''notifications/message'')])]"

definition line_init_ok :: string where
  \<open>line_init_ok = ''{"jsonrpc":"2.0","id":1,"result":{"protocolVersion":"2024-11-05","capabilities":{},"serverInfo":{"name":"aws-docs","version":"1.0.0"}}}''\<close>

definition line_init_error :: string where
  \<open>line_init_error = ''{"jsonrpc":"2.0","id":1,"error":{"code":-32603,"message":"Internal error"}}''\<close>

definition line_tools_list :: string where
  \<open>line_tools_list = ''{"jsonrpc":"2.0","id":2,"result":{"tools":[{"name":"search_documentation","description":"Search the AWS documentation","inputSchema":{"type":"object","properties":{"search_phrase":{"type":"string"},"limit":{"type":"integer"}},"required":["search_phrase"]}}]}}''\<close>

definition text_calls_not_list :: string where
  \<open>text_calls_not_list = ''{"needs_tools": true, "tool_calls": 5}''\<close>

definition text_one_call :: string where
  \<open>text_one_call = ''{"needs_tools": true, "tool_calls": [{"name": "aws-api:call_aws", "arguments": {"cli_command": "aws s3 ls"}}]}''\<close>

definition example_texts :: "(string \<times> json) list" where
  "example_texts =
     [(line_init_ok,
       JObj [(''jsonrpc'', JStr ''2.0''), (''id'', JInt 1),
             (''result'', JObj [(''protocolVersion'', JStr ''2024-11-05''),
                                (''capabilities'', JObj []),
                                (''serverInfo'', JObj [(''name'', JStr ''aws-docs''),
                                                       (''version'', JStr ''1.0.0'')])])]),
      (line_init_error,
       JObj [(''jsonrpc'', JStr ''2.0''), (''id'', JInt 1),
             (''error'', JObj [(''code'', JInt (- 32603)), (''message'', JStr ''Internal error'')])]),
      (line_tools_list,
       JObj [(''jsonrpc'', JStr ''2.0''), (''id'', JInt 2),
             (''result'',
              JObj [(''tools'',
                     JArr [JObj [(''name'', JStr ''search_documentation''),
                                 (''description'', JStr ''Search the AWS documentation''),
                                 (''inputSchema'', input_schema search_tool)]])])]),
      (text_calls_not_list, JObj [(''needs_tools'', JBool True), (''tool_calls'', JInt 5)]),
      (text_one_call,
       JObj [(''needs_tools'', JBool True),
             (''tool_calls'',
              JArr [JObj [(''name'', JStr ''aws-api:call_aws''),
                          (''arguments'', JObj [(''cli_command'', JStr ''aws s3 ls'')])]])])]"

definition example_runtime :: runtime where
  "example_runtime =
     \<lparr>decode = Inr,
      loads = (\<lambda>s. case map_of (example_lines @ example_texts) s of
                     Some v \<Rightarrow> Inr v
                   | None \<Rightarrow> Inl (JSONDecodeError ''Expecting value: line 1 column 1 (char 0)'')),
      repr = (\<lambda>v. ''...'')\<rparr>"

section \<open>Notions used in the statements on the repair of arguments\<close>






section \<open>Notions and examples for the start of the servers\<close>

text \<open>
  The handshake fails, in the sense of the specification, when no line comes within the
  timeout, when the stream has ended, or when the response is an object with an
  \<^verbatim>\<open>error\<close> field.
\<close>

definition handshake_fails :: "runtime \<Rightarrow> process \<Rightarrow> bool" where
  "handshake_fails rt p =
     (case fst (readline p) of
        RTimeout \<Rightarrow> True
      | RLine l \<Rightarrow> l = [] \<or> (case parse_line rt l of
                                  Inr (JObj d) \<Rightarrow> dict_has d ''error''
                                | other \<Rightarrow> False)
      | RRaise e \<Rightarrow> False)"

text \<open>
  Two servers as \<^verbatim>\<open>config/mcp_config.py\<close> declares them, and a host on which the first
  answers the handshake with an error and the second answers it and lists one tool.
\<close>

definition aws_api_config :: MCPServerConfig where
  "aws_api_config =
     \<lparr>command = ''uvx'', args = [''awslabs.aws-api-mcp-server@latest''],
      env = map_of [(''AWS_REGION'', ''ca-central-1''), (''AWS_API_MCP_PROFILE_NAME'', ''''),
                    (''AWS_API_MCP_WORKING_DIR'', ''/tmp'')],
      disabled = False\<rparr>"

definition aws_docs_config :: MCPServerConfig where
  "aws_docs_config =
     \<lparr>command = ''uvx'', args = [''awslabs.aws-documentation-mcp-server@latest''],
      env = map_of [(''AWS_REGION'', ''ca-central-1'')],
      disabled = False\<rparr>"

definition example_host :: host where
  "example_host =
     \<lparr>environ = map_of [(''PATH'', ''/usr/local/bin:/usr/bin''), (''HOME'', ''/home/user''),
                        (''AWS_REGION'', ''us-east-1'')],
      which_uvx = Some ''/usr/local/bin/uvx'',
      path_exists = (\<lambda>p. False),
      aws_home = ''/home/user/.aws'',
      read_credentials = (\<lambda>p. Inr None),
      spawn = (\<lambda>cmd e.
                 if cmd = [''/usr/local/bin/uvx'', ''awslabs.aws-api-mcp-server@latest'']
                 then Inr (quiet_process [RLine line_init_error])
                 else if cmd = [''/usr/local/bin/uvx'', ''awslabs.aws-documentation-mcp-server@latest'']
                 then Inr (quiet_process [RLine line_init_ok, RLine line_tools_list])
                 else Inl (ExternalError ''[Errno 2] No such file or directory'')),
      bedrock_client_error = None\<rparr>"

definition fresh_client :: "(string \<times> MCPServerConfig) list \<Rightarrow> client" where
  "fresh_client servers =
     \<lparr>config = servers, tools = [], server_data = [], server_processes = [],
      client_initialized = False, loop_running = False\<rparr>"

text \<open>
  The keys that lines 141-157 copy from the default profile of the credentials file, when
  \<^verbatim>\<open>~/.aws\<close> exists; and a host without credentials in its environment whose
  credentials file has a default profile.
\<close>

definition profile_keys :: "host \<Rightarrow> (string \<rightharpoonup> string)" where
  "profile_keys h =
     (if path_exists h (aws_home h) then read_default_profile h Map.empty else Map.empty)"


section \<open>Instance attribution: the two lookups\<close>


section \<open>Dictionaries and the example inputs\<close>



lemma dict_has_map_of: "dict_has d k = (map_of d k \<noteq> None)"
  by (induction d) (auto simp: dict_has_def dict_keys_def)


lemmas line_defs = line_result_def line_result_other_id_def line_result_no_id_def line_error_def
  line_notice_info_def line_notice_bare_def line_init_ok_def line_init_error_def
  line_tools_list_def text_calls_not_list_def text_one_call_def

lemma strip_example [simp]:
  "strip line_result = line_result" "strip line_result_other_id = line_result_other_id"
  "strip line_result_no_id = line_result_no_id" "strip line_error = line_error"
  "strip line_notice_info = line_notice_info" "strip line_notice_bare = line_notice_bare"
  "strip line_init_ok = line_init_ok" "strip line_init_error = line_init_error"
  "strip line_tools_list = line_tools_list"
  by (simp_all add: strip_def is_space_def line_defs)

lemma parse_example:
  "parse_line example_runtime line_result =
     Inr (JObj [(''jsonrpc'', JStr ''2.0''), (''id'', JInt 1000), (''result'', JObj [(''ok'', JBool True)])])"
  "parse_line example_runtime line_result_other_id =
     Inr (JObj [(''jsonrpc'', JStr ''2.0''), (''id'', JInt 7), (''result'', JObj [(''ok'', JBool True)])])"
  "parse_line example_runtime line_result_no_id =
     Inr (JObj [(''jsonrpc'', JStr ''2.0''), (''result'', JObj [(''ok'', JBool True)])])"
  "parse_line example_runtime line_error =
     Inr (JObj [(''jsonrpc'', JStr ''2.0''), (''id'', JInt 1000),
                (''error'', JObj [(''code'', JInt (- 32602)), (''message'', JStr ''Invalid parameters'')])])"
  "parse_line example_runtime line_notice_info =
     Inr (JObj [(''jsonrpc'', JStr ''2.0''), (''method'', JStr ''notifications/message''),
                (''params'', JObj [(''level'', JStr ''info''), (''data'', JStr ''Processing request'')])])"
  "parse_line example_runtime line_notice_bare =
     Inr (JObj [(''jsonrpc'', JStr ''2.0''), (''method'', JStr ''notifications/message'')])"
  "parse_line example_runtime ''not json'' = Inl (JSONDecodeError ''Expecting value: line 1 column 1 (char 0)'')"
  by (simp_all add: parse_line_def bind_exn_def example_runtime_def example_lines_def
        example_texts_def)
     (simp_all add: line_defs strip_def is_space_def)

lemma parse_example_init:
  "parse_line example_runtime line_init_ok =
     Inr (JObj [(''jsonrpc'', JStr ''2.0''), (''id'', JInt 1),
             (''result'', JObj [(''protocolVersion'', JStr ''2024-11-05''),
                                (''capabilities'', JObj []),
                                (''serverInfo'', JObj [(''name'', JStr ''aws-docs''),
                                                       (''version'', JStr ''1.0.0'')])])])"
  "parse_line example_runtime line_init_error =
     Inr (JObj [(''jsonrpc'', JStr ''2.0''), (''id'', JInt 1),
             (''error'', JObj [(''code'', JInt (- 32603)), (''message'', JStr ''Internal error'')])])"
  "parse_line example_runtime line_tools_list =
     Inr (JObj [(''jsonrpc'', JStr ''2.0''), (''id'', JInt 2),
             (''result'',
              JObj [(''tools'',
                     JArr [JObj [(''name'', JStr ''search_documentation''),
                                 (''description'', JStr ''Search the AWS documentation''),
                                 (''inputSchema'', input_schema search_tool)]])])])"
  by (simp_all add: parse_line_def bind_exn_def example_runtime_def example_lines_def
        example_texts_def)
     (simp_all add: line_defs strip_def is_space_def)

lemma loads_example:
  "loads example_runtime text_calls_not_list
     = Inr (JObj [(''needs_tools'', JBool True), (''tool_calls'', JInt 5)])"
  "loads example_runtime text_one_call
     = Inr (JObj [(''needs_tools'', JBool True),
             (''tool_calls'',
              JArr [JObj [(''name'', JStr ''aws-api:call_aws''),
                          (''arguments'', JObj [(''cli_command'', JStr ''aws s3 ls'')])]])])"
  by (simp_all add: example_runtime_def example_lines_def example_texts_def)
     (simp_all add: line_defs)

lemma nonempty_example:
  "line_result \<noteq> []" "line_result_other_id \<noteq> []" "line_result_no_id \<noteq> []" "line_error \<noteq> []"
  "line_notice_info \<noteq> []" "line_notice_bare \<noteq> []"
  "line_init_ok \<noteq> []" "line_init_error \<noteq> []" "line_tools_list \<noteq> []"
  by (simp_all add: line_defs)

lemma serving_example:
  "serving (example_client a b) (JStr ''aws-api:call_aws'')
     = Some (call_aws_tool, \<lparr>process = quiet_process a, initialized = True\<rparr>)"
  "serving (example_client a b) (JStr ''aws-api:suggest_aws_commands'')
     = Some (suggest_tool, \<lparr>process = quiet_process a, initialized = True\<rparr>)"
  "serving (example_client a b) (JStr ''aws-docs:search_documentation'')
     = Some (search_tool, \<lparr>process = quiet_process b, initialized = True\<rparr>)"
  by (simp_all add: serving_def example_client_def call_aws_tool_def suggest_tool_def search_tool_def)

section \<open>Calling a tool: what is returned\<close>

lemma call_handler_shape: "\<exists>x. call_handler rt e = error_dict x"
  by (cases e) auto

lemma standard_response_shape:
  "standard_response rt response = Inr d \<Longrightarrow> \<exists>x. d = result_dict x \<or> d = error_dict x"
  by (auto simp: standard_response_def bind_exn_def split: sum.splits if_splits)

lemma validation_failure_shape:
  "validation_failure rt data = Some d \<Longrightarrow> \<exists>x. d = error_dict x"
  by (auto simp: validation_failure_def bind_exn_def split: sum.splits if_splits)

lemma level_outcome_shape:
  "level_outcome rt response = Inr d \<Longrightarrow> \<exists>x. d = error_dict x"
  by (auto simp: level_outcome_def bind_exn_def split: sum.splits if_splits option.splits
           dest: validation_failure_shape)

lemma after_notification_shape:
  "after_notification rt p = (Inr d, p') \<Longrightarrow> \<exists>x. d = result_dict x \<or> d = error_dict x"
  by (auto simp: after_notification_def split: prod.splits read.splits if_splits sum.splits
           dest: standard_response_shape)

lemma exchange_shape:
  "exchange rt p request = (Inr d, p') \<Longrightarrow> \<exists>x. d = result_dict x \<or> d = error_dict x"
  unfolding exchange_def
  by (auto split: prod.splits read.splits if_splits sum.splits bool.splits
           dest: standard_response_shape level_outcome_shape after_notification_shape)

lemma async_call_tool_shape:
  "async_call_tool rt c now tool_name arguments = (Inr d, c')
   \<Longrightarrow> \<exists>x. d = result_dict x \<or> d = error_dict x"
  unfolding async_call_tool_def
  using call_handler_shape[of rt]
  by (auto split: if_splits option.splits prod.splits sum.splits dest: exchange_shape)

lemma call_tool_shape:
  "\<exists>x c'. call_tool rt c now tool_name arguments = (result_dict x, c')
         \<or> call_tool rt c now tool_name arguments = (error_dict x, c')"
proof (cases "async_call_tool rt c now tool_name arguments")
  case (Pair r c')
  show ?thesis
  proof (cases r)
    case (Inl e)
    with Pair show ?thesis by (auto simp: call_tool_def)
  next
    case (Inr d)
    with Pair async_call_tool_shape[of rt c now tool_name arguments d c']
    show ?thesis by (auto simp: call_tool_def)
  qed
qed

lemma call_tool_serving:
  "serving c tool_name = Some (t, srv) \<Longrightarrow>
   call_tool rt c now tool_name arguments =
     (case exchange rt (process srv) (tool_request now t arguments) of
        (r, p') \<Rightarrow> ((case r of Inl e \<Rightarrow> call_handler rt e | Inr d \<Rightarrow> d),
                    c\<lparr>server_data := dict_set (server_data c) (server_name t) (srv\<lparr>process := p'\<rparr>)\<rparr>))"
  by (auto simp: serving_def call_tool_def async_call_tool_def
           split: if_splits option.splits prod.splits sum.splits)

lemma exchange_timeout:
  "\<not> stdin_broken p \<Longrightarrow> fst (readline p) = RTimeout \<Longrightarrow>
   fst (exchange rt p req) = Inl TimeoutError"
  by (auto simp: exchange_def stdin_write_def readline_def split: list.splits read.splits)

lemma exchange_line:
  "\<not> stdin_broken p \<Longrightarrow> stdout p = RLine l # rest \<Longrightarrow> l \<noteq> [] \<Longrightarrow>
   exchange rt p req =
     (case parse_line rt l of
        Inl e \<Rightarrow> (Inl e, p\<lparr>stdin_lines := stdin_lines p @ [req], stdout := rest\<rparr>)
      | Inr response \<Rightarrow>
          (case is_notification response of
             Inl e \<Rightarrow> (Inl e, p\<lparr>stdin_lines := stdin_lines p @ [req], stdout := rest\<rparr>)
           | Inr False \<Rightarrow> (standard_response rt response,
                            p\<lparr>stdin_lines := stdin_lines p @ [req], stdout := rest\<rparr>)
           | Inr True \<Rightarrow>
               (case has_level response of
                  Inl e \<Rightarrow> (Inl e, p\<lparr>stdin_lines := stdin_lines p @ [req], stdout := rest\<rparr>)
                | Inr True \<Rightarrow> (level_outcome rt response,
                                p\<lparr>stdin_lines := stdin_lines p @ [req], stdout := rest\<rparr>)
                | Inr False \<Rightarrow>
                    after_notification rt (p\<lparr>stdin_lines := stdin_lines p @ [req], stdout := rest\<rparr>))))"
  by (simp add: exchange_def stdin_write_def readline_def)

lemma is_notification_no_method:
  "map_of d ''method'' = None \<Longrightarrow> is_notification (JObj d) = Inr False"
  by (simp add: is_notification_def bind_exn_def dict_has_map_of)

lemma standard_response_error:
  "map_of d ''error'' = Some (JObj ed) \<Longrightarrow>
   standard_response rt (JObj d) =
     Inr (error_dict (case map_of ed ''message'' of Some m \<Rightarrow> m | None \<Rightarrow> JStr (repr rt (JObj ed))))"
  by (simp add: standard_response_def bind_exn_def dict_has_map_of split: option.splits)

lemma standard_response_result:
  "map_of d ''error'' = None \<Longrightarrow> map_of d ''result'' = Some payload \<Longrightarrow>
   standard_response rt (JObj d) = Inr (result_dict payload)"
  by (simp add: standard_response_def bind_exn_def dict_has_map_of)

lemma call_tool_first_line:
  "serving c tool_name = Some (t, srv) \<Longrightarrow> \<not> stdin_broken (process srv) \<Longrightarrow>
   stdout (process srv) = RLine l # rest \<Longrightarrow> l \<noteq> [] \<Longrightarrow>
   parse_line rt l = Inr (JObj d) \<Longrightarrow> map_of d ''method'' = None \<Longrightarrow>
   fst (call_tool rt c now tool_name arguments) =
     (case standard_response rt (JObj d) of Inl e \<Rightarrow> call_handler rt e | Inr x \<Rightarrow> x)"
  by (simp add: call_tool_serving exchange_line is_notification_no_method)

text \<open>
  C1, as amended. For every client state, tool name and argument payload, \<open>call_tool\<close>
  returns a dictionary with the single key \<^verbatim>\<open>result\<close> or the single key \<^verbatim>\<open>error\<close>; no
  exception leaves it. When the call reaches a server whose input is open: if no line comes
  within the timeout the error is \<^verbatim>\<open>Tool call timeout\<close>; if the line is not JSON the error
  is the text of the decoding error; if the response has an \<^verbatim>\<open>error\<close> object the error is
  its message; if it has a \<^verbatim>\<open>result\<close> and no \<^verbatim>\<open>error\<close> the payload is returned. The
  id of the response plays no part.
\<close>

theorem call_tool_result_or_error:
  "(\<exists>x c'. call_tool rt c now tool_name arguments = (result_dict x, c')
            \<or> call_tool rt c now tool_name arguments = (error_dict x, c'))
   \<and> (serving c tool_name = Some (t, srv) \<and> \<not> stdin_broken (process srv)
        \<and> fst (readline (process srv)) = RTimeout
        \<longrightarrow> fst (call_tool rt c now tool_name arguments) = error_dict (JStr ''Tool call timeout''))
   \<and> (serving c tool_name = Some (t, srv) \<and> \<not> stdin_broken (process srv)
        \<and> stdout (process srv) = RLine l # rest \<and> l \<noteq> []
        \<and> parse_line rt l = Inl (JSONDecodeError m)
        \<longrightarrow> fst (call_tool rt c now tool_name arguments)
            = error_dict (JStr (''JSON decode error: '' @ m)))
   \<and> (serving c tool_name = Some (t, srv) \<and> \<not> stdin_broken (process srv)
        \<and> stdout (process srv) = RLine l # rest \<and> l \<noteq> []
        \<and> parse_line rt l = Inr (JObj d) \<and> map_of d ''method'' = None
        \<and> map_of d ''error'' = Some (JObj ed)
        \<longrightarrow> fst (call_tool rt c now tool_name arguments)
            = error_dict (case map_of ed ''message'' of
                            Some msg \<Rightarrow> msg
                          | None \<Rightarrow> JStr (repr rt (JObj ed))))
   \<and> (serving c tool_name = Some (t, srv) \<and> \<not> stdin_broken (process srv)
        \<and> stdout (process srv) = RLine l # rest \<and> l \<noteq> []
        \<and> parse_line rt l = Inr (JObj d) \<and> map_of d ''method'' = None
        \<and> map_of d ''error'' = None \<and> map_of d ''result'' = Some payload
        \<longrightarrow> fst (call_tool rt c now tool_name arguments) = result_dict payload)"
proof (intro conjI impI)
  show "\<exists>x c'. call_tool rt c now tool_name arguments = (result_dict x, c')
            \<or> call_tool rt c now tool_name arguments = (error_dict x, c')"
    by (rule call_tool_shape)
next
  assume h: "serving c tool_name = Some (t, srv) \<and> \<not> stdin_broken (process srv)
        \<and> fst (readline (process srv)) = RTimeout"
  then have "fst (exchange rt (process srv) (tool_request now t arguments)) = Inl TimeoutError"
    by (simp add: exchange_timeout)
  with h show "fst (call_tool rt c now tool_name arguments) = error_dict (JStr ''Tool call timeout'')"
    by (auto simp add: call_tool_serving split: prod.splits)
next
  assume h: "serving c tool_name = Some (t, srv) \<and> \<not> stdin_broken (process srv)
        \<and> stdout (process srv) = RLine l # rest \<and> l \<noteq> []
        \<and> parse_line rt l = Inl (JSONDecodeError m)"
  then show "fst (call_tool rt c now tool_name arguments)
            = error_dict (JStr (''JSON decode error: '' @ m))"
    by (simp add: call_tool_serving exchange_line)
next
  assume h: "serving c tool_name = Some (t, srv) \<and> \<not> stdin_broken (process srv)
        \<and> stdout (process srv) = RLine l # rest \<and> l \<noteq> []
        \<and> parse_line rt l = Inr (JObj d) \<and> map_of d ''method'' = None
        \<and> map_of d ''error'' = Some (JObj ed)"
  then show "fst (call_tool rt c now tool_name arguments)
            = error_dict (case map_of ed ''message'' of
                            Some msg \<Rightarrow> msg
                          | None \<Rightarrow> JStr (repr rt (JObj ed)))"
    by (simp add: call_tool_serving exchange_line is_notification_no_method
          standard_response_error)
next
  assume h: "serving c tool_name = Some (t, srv) \<and> \<not> stdin_broken (process srv)
        \<and> stdout (process srv) = RLine l # rest \<and> l \<noteq> []
        \<and> parse_line rt l = Inr (JObj d) \<and> map_of d ''method'' = None
        \<and> map_of d ''error'' = None \<and> map_of d ''result'' = Some payload"
  then show "fst (call_tool rt c now tool_name arguments) = result_dict payload"
    by (simp add: call_tool_serving exchange_line is_notification_no_method
          standard_response_result)
qed

text \<open>The theorem on the example client: a silent server, a line that is not JSON, an
  error response and a result.\<close>

theorem call_tool_result_or_error_witness:
  "fst (call_tool example_runtime (example_client [] []) 1000 (JStr ''aws-api:call_aws'')
          (JObj [(''cli_command'', JStr ''aws s3 ls'')]))
     = error_dict (JStr ''Tool call timeout'')
   \<and> fst (call_tool example_runtime (example_client [RLine ''not json''] []) 1000
            (JStr ''aws-api:call_aws'') (JObj [(''cli_command'', JStr ''aws s3 ls'')]))
     = error_dict (JStr ''JSON decode error: Expecting value: line 1 column 1 (char 0)'')
   \<and> fst (call_tool example_runtime (example_client [RLine line_error] []) 1000
            (JStr ''aws-api:call_aws'') (JObj [(''cli_command'', JStr ''aws s3 ls'')]))
     = error_dict (JStr ''Invalid parameters'')
   \<and> fst (call_tool example_runtime (example_client [RLine line_result] []) 1000
            (JStr ''aws-api:call_aws'') (JObj [(''cli_command'', JStr ''aws s3 ls'')]))
     = result_dict (JObj [(''ok'', JBool True)])"
proof (intro conjI)
  show "fst (call_tool example_runtime (example_client [] []) 1000 (JStr ''aws-api:call_aws'')
          (JObj [(''cli_command'', JStr ''aws s3 ls'')]))
     = error_dict (JStr ''Tool call timeout'')"
    using call_tool_result_or_error
      [where rt = example_runtime and c = "example_client [] []"
         and tool_name = "JStr ''aws-api:call_aws''" and t = call_aws_tool
         and srv = "\<lparr>process = quiet_process [], initialized = True\<rparr>"]
    by (simp add: serving_example quiet_process_def readline_def)
  show "fst (call_tool example_runtime (example_client [RLine ''not json''] []) 1000
            (JStr ''aws-api:call_aws'') (JObj [(''cli_command'', JStr ''aws s3 ls'')]))
     = error_dict (JStr ''JSON decode error: Expecting value: line 1 column 1 (char 0)'')"
    using call_tool_result_or_error
      [where rt = example_runtime and c = "example_client [RLine ''not json''] []"
         and tool_name = "JStr ''aws-api:call_aws''" and t = call_aws_tool
         and srv = "\<lparr>process = quiet_process [RLine ''not json''], initialized = True\<rparr>"
         and l = "''not json''" and rest = "[]"
         and m = "''Expecting value: line 1 column 1 (char 0)''"]
    by (simp add: serving_example quiet_process_def parse_example)
  show "fst (call_tool example_runtime (example_client [RLine line_error] []) 1000
            (JStr ''aws-api:call_aws'') (JObj [(''cli_command'', JStr ''aws s3 ls'')]))
     = error_dict (JStr ''Invalid parameters'')"
    using call_tool_result_or_error
      [where rt = example_runtime and c = "example_client [RLine line_error] []"
         and tool_name = "JStr ''aws-api:call_aws''" and t = call_aws_tool
         and srv = "\<lparr>process = quiet_process [RLine line_error], initialized = True\<rparr>"
         and l = line_error and rest = "[]"
         and d = "[(''jsonrpc'', JStr ''2.0''), (''id'', JInt 1000),
                   (''error'', JObj [(''code'', JInt (- 32602)), (''message'', JStr ''Invalid parameters'')])]"
         and ed = "[(''code'', JInt (- 32602)), (''message'', JStr ''Invalid parameters'')]"]
    by (simp add: serving_example quiet_process_def parse_example nonempty_example)
  show "fst (call_tool example_runtime (example_client [RLine line_result] []) 1000
            (JStr ''aws-api:call_aws'') (JObj [(''cli_command'', JStr ''aws s3 ls'')]))
     = result_dict (JObj [(''ok'', JBool True)])"
    using call_tool_result_or_error
      [where rt = example_runtime and c = "example_client [RLine line_result] []"
         and tool_name = "JStr ''aws-api:call_aws''" and t = call_aws_tool
         and srv = "\<lparr>process = quiet_process [RLine line_result], initialized = True\<rparr>"
         and l = line_result and rest = "[]"
         and d = "[(''jsonrpc'', JStr ''2.0''), (''id'', JInt 1000), (''result'', JObj [(''ok'', JBool True)])]"
         and payload = "JObj [(''ok'', JBool True)]"]
    by (simp add: serving_example quiet_process_def parse_example nonempty_example)
qed

text \<open>
  C1 as stated fails where it lists a missing correlation match among the failures that give
  an error: a response that carries a result and no id at all is returned as a success.
\<close>

theorem call_tool_uncorrelated_counterexample:
  "bind_exn (parse_line example_runtime line_result_no_id) (str_in ''id'') = Inr False
   \<and> fst (call_tool example_runtime (example_client [RLine line_result_no_id] []) 1000
            (JStr ''aws-api:call_aws'') (JObj [(''cli_command'', JStr ''aws s3 ls'')]))
     = result_dict (JObj [(''ok'', JBool True)])
   \<and> str_in ''error'' (fst (call_tool example_runtime (example_client [RLine line_result_no_id] []) 1000
            (JStr ''aws-api:call_aws'') (JObj [(''cli_command'', JStr ''aws s3 ls'')])))
     = Inr False"
proof -
  have r: "fst (call_tool example_runtime (example_client [RLine line_result_no_id] []) 1000
            (JStr ''aws-api:call_aws'') (JObj [(''cli_command'', JStr ''aws s3 ls'')]))
     = result_dict (JObj [(''ok'', JBool True)])"
    by (subst call_tool_first_line[OF serving_example(1), where l = line_result_no_id and rest = "[]"
          and d = "[(''jsonrpc'', JStr ''2.0''), (''result'', JObj [(''ok'', JBool True)])]"])
       (simp_all add: quiet_process_def nonempty_example parse_example standard_response_result)
  show ?thesis
    by (simp add: r parse_example bind_exn_def) (simp add: result_dict_def dict_has_def dict_keys_def)
qed

section \<open>Calling a tool: the correlation id\<close>















section \<open>Calling a tool: notifications\<close>










section \<open>Repairing the arguments of a tool call\<close>


















section \<open>Starting the servers: a failed handshake\<close>

lemma handshake_fails_raises: "handshake_fails rt p \<Longrightarrow> \<exists>e. handshake rt p = Inl e"
  by (auto simp: handshake_fails_def handshake_def bind_exn_def stdin_write_def readline_def
           split: list.splits read.splits sum.splits json.splits if_splits)

lemma failed_server_raises:
  "launch h server_config = Inr p \<Longrightarrow> handshake_fails rt p \<Longrightarrow>
   \<exists>e. async_initialize_server rt h c sname server_config = Inl e"
  using handshake_fails_raises[of rt p]
  by (auto simp: async_initialize_server_def bind_exn_def)

lemma initialize_servers_append:
  "initialize_servers rt h c (xs @ ys) = initialize_servers rt h (initialize_servers rt h c xs) ys"
  by (induction xs arbitrary: c) (auto split: sum.splits)

lemma initialize_servers_skip:
  assumes "launch h server_config = Inr p" "handshake_fails rt p"
  shows "initialize_servers rt h c ((sname, server_config) # rest) = initialize_servers rt h c rest"
  using failed_server_raises[OF assms, of c sname] by auto

text \<open>
  C8. If the handshake of a server fails, its initialisation raises, so the server adds
  nothing to the catalog, and the loop goes on: with that server anywhere in the list, the
  client ends in exactly the state it reaches when the server is not in the list at all.
\<close>

theorem failed_handshake_isolated:
  "launch h server_config = Inr p \<and> handshake_fails rt p \<longrightarrow>
     (\<exists>e. async_initialize_server rt h c sname server_config = Inl e)
     \<and> tools (initialize_servers rt h c [(sname, server_config)]) = tools c
     \<and> initialize_servers rt h c (before @ (sname, server_config) # after)
       = initialize_servers rt h c (before @ after)"
proof (intro impI conjI)
  assume h: "launch h server_config = Inr p \<and> handshake_fails rt p"
  then have l: "launch h server_config = Inr p" and f: "handshake_fails rt p" by simp_all
  note skip = initialize_servers_skip[OF l f]
  show "\<exists>e. async_initialize_server rt h c sname server_config = Inl e"
    by (rule failed_server_raises[OF l f])
  show "tools (initialize_servers rt h c [(sname, server_config)]) = tools c"
    by (simp only: skip initialize_servers.simps(1))
  show "initialize_servers rt h c (before @ (sname, server_config) # after)
       = initialize_servers rt h c (before @ after)"
    by (simp only: initialize_servers_append skip)
qed

text \<open>The theorem on the example host: the first server answers the handshake with an
  error, the second is initialised and its tool is the whole catalog.\<close>

lemma launch_example:
  "launch example_host aws_api_config = Inr (quiet_process [RLine line_init_error])"
  "launch example_host aws_docs_config = Inr (quiet_process [RLine line_init_ok, RLine line_tools_list])"
  by (simp_all add: launch_def find_uvx_def example_host_def aws_api_config_def aws_docs_config_def)

lemma handshake_fails_example:
  "handshake_fails example_runtime (quiet_process [RLine line_init_error])"
  by (simp add: handshake_fails_def readline_def quiet_process_def nonempty_example
        parse_example_init dict_has_def dict_keys_def)

lemma handshake_example:
  "handshake example_runtime (quiet_process [RLine line_init_ok, RLine line_tools_list])
     = Inr \<lparr>stdin_broken = False, stdin_lines = [init_request, initialized_notification],
            stdout = [RLine line_tools_list]\<rparr>"
  by (simp add: handshake_def bind_exn_def stdin_write_def readline_def quiet_process_def
        nonempty_example parse_example_init dict_has_def dict_keys_def)

lemma tools_of_response_example:
  "bind_exn (parse_line example_runtime line_tools_list) tools_of_response
     = Inr (Some [JObj [(''name'', JStr ''search_documentation''),
                        (''description'', JStr ''Search the AWS documentation''),
                        (''inputSchema'', input_schema search_tool)]])"
  by (simp add: parse_example_init bind_exn_def tools_of_response_def dict_has_def dict_keys_def)

lemma get_tools_example:
  "async_get_server_tools example_runtime ''aws-docs'' []
     \<lparr>stdin_broken = False, stdin_lines = [init_request, initialized_notification],
      stdout = [RLine line_tools_list]\<rparr>
   = ([(''aws-docs:search_documentation'', search_tool)],
      \<lparr>stdin_broken = False,
       stdin_lines = [init_request, initialized_notification, tools_request],
       stdout = []\<rparr>)"
  by (simp add: async_get_server_tools_def stdin_write_def readline_def nonempty_example
        tools_of_response_example)
     (simp add: make_tool_def bind_exn_def search_tool_def)

lemma docs_server_example:
  "initialize_servers example_runtime example_host (fresh_client s) [(''aws-docs'', aws_docs_config)]
     = \<lparr>config = s,
        tools = [(''aws-docs:search_documentation'', search_tool)],
        server_data = [(''aws-docs'',
                        \<lparr>process = \<lparr>stdin_broken = False,
                                     stdin_lines = [init_request, initialized_notification,
                                                    tools_request],
                                     stdout = []\<rparr>,
                         initialized = True\<rparr>)],
        server_processes = [(''aws-docs'', ''isolated-aws-docs'')],
        client_initialized = False,
        loop_running = False\<rparr>"
  by (simp add: async_initialize_server_def launch_example handshake_example bind_exn_def
        fresh_client_def get_tools_example)

theorem failed_handshake_isolated_witness:
  "(\<exists>e. async_initialize_server example_runtime example_host
           (fresh_client [(''aws-api'', aws_api_config), (''aws-docs'', aws_docs_config)])
           ''aws-api'' aws_api_config = Inl e)
   \<and> tools (initialize_servers example_runtime example_host
               (fresh_client [(''aws-api'', aws_api_config), (''aws-docs'', aws_docs_config)])
               [(''aws-api'', aws_api_config)]) = []
   \<and> tools (initialize_servers example_runtime example_host
               (fresh_client [(''aws-api'', aws_api_config), (''aws-docs'', aws_docs_config)])
               [(''aws-api'', aws_api_config), (''aws-docs'', aws_docs_config)])
     = [(''aws-docs:search_documentation'', search_tool)]"
proof -
  have hyp: "launch example_host aws_api_config = Inr (quiet_process [RLine line_init_error])
             \<and> handshake_fails example_runtime (quiet_process [RLine line_init_error])"
    by (simp add: launch_example handshake_fails_example)
  note w = failed_handshake_isolated
    [where h = example_host and server_config = aws_api_config
       and p = "quiet_process [RLine line_init_error]" and rt = example_runtime
       and c = "fresh_client [(''aws-api'', aws_api_config), (''aws-docs'', aws_docs_config)]"
       and sname = "''aws-api''" and before = "[]"
       and after = "[(''aws-docs'', aws_docs_config)]", THEN mp, OF hyp]
  have a: "\<exists>e. async_initialize_server example_runtime example_host
           (fresh_client [(''aws-api'', aws_api_config), (''aws-docs'', aws_docs_config)])
           ''aws-api'' aws_api_config = Inl e"
    by (rule w[THEN conjunct1])
  have "tools (initialize_servers example_runtime example_host
               (fresh_client [(''aws-api'', aws_api_config), (''aws-docs'', aws_docs_config)])
               [(''aws-api'', aws_api_config)])
        = tools (fresh_client [(''aws-api'', aws_api_config), (''aws-docs'', aws_docs_config)])"
    by (rule w[THEN conjunct2, THEN conjunct1])
  also have "\<dots> = []" by (simp add: fresh_client_def)
  finally have b: "tools (initialize_servers example_runtime example_host
               (fresh_client [(''aws-api'', aws_api_config), (''aws-docs'', aws_docs_config)])
               [(''aws-api'', aws_api_config)]) = []" .
  have "initialize_servers example_runtime example_host
               (fresh_client [(''aws-api'', aws_api_config), (''aws-docs'', aws_docs_config)])
               [(''aws-api'', aws_api_config), (''aws-docs'', aws_docs_config)]
        = initialize_servers example_runtime example_host
               (fresh_client [(''aws-api'', aws_api_config), (''aws-docs'', aws_docs_config)])
               [(''aws-docs'', aws_docs_config)]"
    using w[THEN conjunct2, THEN conjunct2] by (simp only: append_Nil)
  then have c: "tools (initialize_servers example_runtime example_host
               (fresh_client [(''aws-api'', aws_api_config), (''aws-docs'', aws_docs_config)])
               [(''aws-api'', aws_api_config), (''aws-docs'', aws_docs_config)])
     = [(''aws-docs:search_documentation'', search_tool)]"
    by (simp only: docs_server_example client.simps)
  from a b c show ?thesis by (intro conjI)
qed

section \<open>Starting the servers: the environment of the subprocess\<close>


lemma read_default_profile_other:
  "v \<noteq> ''AWS_ACCESS_KEY_ID'' \<Longrightarrow> v \<noteq> ''AWS_SECRET_ACCESS_KEY'' \<Longrightarrow>
   read_default_profile h e v = e v"
  by (auto simp: read_default_profile_def split: sum.splits option.splits cred_value.splits)



lemma profile_keys_dom:
  "v \<noteq> ''AWS_ACCESS_KEY_ID'' \<Longrightarrow> v \<noteq> ''AWS_SECRET_ACCESS_KEY'' \<Longrightarrow> profile_keys h v = None"
  by (simp add: profile_keys_def read_default_profile_other)




end
